theory Spec2Isabelle
  imports
    Complex_Main
    "HOL-Library.AList"
    "HOL-Library.Monad_Syntax"
    "HOL-Library.Multiset"
    "HOL-Library.Product_Lexorder"
begin

section \<open>The AI model registry of ai-registry-server.js\<close>

text \<open>
  The class \<^verbatim>\<open>AIModelRegistry\<close> keeps model and agent records in JavaScript
  \<^verbatim>\<open>Map\<close>s, answers filtered and ranked queries over the model records, describes how
  to call a model, and writes the maps to a JSON file.

  Conventions of the embedding.
  \<^item> A number that the code compares or subtracts (reliability, latency, the bounds of
    a query) is a \<^typ>\<open>rat\<close>: the code only compares such numbers and takes the sign of
    a difference, and both agree with exact arithmetic on finite doubles. A number that
    the code only stores (\<^verbatim>\<open>maxTokens\<close>, \<^verbatim>\<open>contextWindow\<close>, \<^verbatim>\<open>dashboardPort\<close>) is a
    \<open>js_number\<close>, which also has the two infinities: \<^verbatim>\<open>JSON.parse\<close> yields
    \<^verbatim>\<open>Infinity\<close> for a numeral beyond the range of a double, such as \<^verbatim>\<open>1e999\<close>, and
    \<^verbatim>\<open>JSON.stringify\<close> writes an infinity as \<^verbatim>\<open>null\<close>. \<^verbatim>\<open>NaN\<close>, which no JSON text
    yields, is not represented.
  \<^item> An optional string or array property is an \<^typ>\<open>'a option\<close>, \<open>None\<close> being
    \<^verbatim>\<open>undefined\<close> (the property is absent).
  \<^item> An optional number that the code compares or defaults is a \<open>jsnum\<close>, which keeps
    \<^verbatim>\<open>undefined\<close> and \<^verbatim>\<open>null\<close> apart, since \<^verbatim>\<open>null > x\<close> and
    \<^verbatim>\<open>undefined > x\<close> differ.
  \<^item> Records are typed: a property holds a value of the type the data model gives it.
    A request body that puts, say, a number where an array belongs is outside the
    embedding.
  \<^item> A \<^verbatim>\<open>Map\<close> is an association list with distinct keys in insertion order:
    \<^verbatim>\<open>get\<close> is \<^const>\<open>map_of\<close>, \<^verbatim>\<open>set\<close> is \<^const>\<open>AList.update\<close> (an existing key
    keeps its position, a new key goes last), \<^verbatim>\<open>delete\<close> is \<^const>\<open>AList.delete\<close>.
  \<^item> The clock (\<^verbatim>\<open>new Date().toISOString()\<close>) and \<^verbatim>\<open>uuidv4()\<close> are inputs of
    the functions that read them.
  \<^item> \<^verbatim>\<open>broadcastUpdate\<close> and \<^verbatim>\<open>console.log\<close> write to sockets and to the terminal
    only; they do not touch the maps and are left out.
  \<^item> Field names carry a prefix naming their object: \<open>m_\<close> a stored model entry,
    \<open>d_\<close> a request body (\<^verbatim>\<open>modelData\<close>), \<open>c_\<close> the criteria of a query,
    \<open>s_\<close> a communication schema, \<open>a_\<close> a stored agent entry, \<open>ad_\<close> an agent
    request body.
\<close>

subsection \<open>Values\<close>

datatype jsnum = Undefined | Null | Num rat

datatype js_number = Finite rat | PosInfinity | NegInfinity

text \<open>\<^verbatim>\<open>x > b\<close> with \<open>b\<close> a number: \<^verbatim>\<open>undefined\<close> becomes \<^verbatim>\<open>NaN\<close>, and every
  comparison with \<^verbatim>\<open>NaN\<close> is false; \<^verbatim>\<open>null\<close> becomes \<open>0\<close>.\<close>

fun js_gt :: "jsnum \<Rightarrow> rat \<Rightarrow> bool" where
  "js_gt Undefined b = False"
| "js_gt Null b = (0 > b)"
| "js_gt (Num x) b = (x > b)"

text \<open>A string is truthy when it is present and not empty.\<close>

fun str_truthy :: "string option \<Rightarrow> bool" where
  "str_truthy None = False"
| "str_truthy (Some s) = (s \<noteq> [])"

subsection \<open>Records\<close>

record communication_schema =
  s_requestFormat :: "string option"
  s_responseFormat :: "string option"
  s_streamingSupported :: "bool option"
  s_authMethod :: "string option"

text \<open>\<^verbatim>\<open>modelEntry\<close>, as \<^verbatim>\<open>registerModel\<close> builds it.\<close>

record model_entry =
  m_id :: string
  m_name :: "string option"
  m_type :: "string option"
  m_provider :: "string option"
  m_endpoint :: "string option"
  m_apiKey :: "string option"
  m_protocol :: string
  m_capabilities :: "string list"
  m_inputFormats :: "string list"
  m_outputFormats :: "string list"
  m_maxTokens :: "js_number option"
  m_contextWindow :: "js_number option"
  m_communicationSchema :: communication_schema
  m_latencyMs :: jsnum
  m_reliability :: rat
  m_costPerToken :: jsnum
  m_rateLimit :: jsnum
  m_description :: "string option"
  m_tags :: "string list"
  m_version :: string
  m_registeredAt :: string
  m_lastSeen :: string
  m_lastUpdated :: string
  m_status :: string
  m_registeredBy :: string

text \<open>
  A request body for a model (\<^verbatim>\<open>req.body\<close>, \<^verbatim>\<open>modelData\<close>): any property may be
  absent. The same body type serves registration and update; \<^verbatim>\<open>registerModel\<close> never
  reads the last four properties.
\<close>

record model_data =
  d_id :: "string option"
  d_name :: "string option"
  d_type :: "string option"
  d_provider :: "string option"
  d_endpoint :: "string option"
  d_apiKey :: "string option"
  d_protocol :: "string option"
  d_capabilities :: "string list option"
  d_inputFormats :: "string list option"
  d_outputFormats :: "string list option"
  d_maxTokens :: "js_number option"
  d_contextWindow :: "js_number option"
  d_communicationSchema :: "communication_schema option"
  d_latencyMs :: jsnum
  d_reliability :: "rat option"
  d_costPerToken :: jsnum
  d_rateLimit :: jsnum
  d_description :: "string option"
  d_tags :: "string list option"
  d_version :: "string option"
  d_registeredBy :: "string option"
  d_status :: "string option"
  d_registeredAt :: "string option"
  d_lastSeen :: "string option"
  d_lastUpdated :: "string option"

text \<open>\<^verbatim>\<open>agentEntry\<close> and the body \<^verbatim>\<open>agentData\<close> it is built from.\<close>

record agent_entry =
  a_id :: string
  a_name :: "string option"
  a_type :: string
  a_endpoint :: "string option"
  a_dashboardPort :: "js_number option"
  a_capabilities :: "string list"
  a_availableModels :: "string list"
  a_preferredModels :: "string list"
  a_networkId :: "string option"
  a_nodeUrl :: "string option"
  a_status :: string
  a_lastHeartbeat :: string
  a_registeredAt :: string
  a_registeredBy :: string

record agent_data =
  ad_id :: "string option"
  ad_name :: "string option"
  ad_type :: "string option"
  ad_endpoint :: "string option"
  ad_dashboardPort :: "js_number option"
  ad_capabilities :: "string list option"
  ad_availableModels :: "string list option"
  ad_preferredModels :: "string list option"
  ad_networkId :: "string option"
  ad_nodeUrl :: "string option"
  ad_status :: "string option"
  ad_registeredBy :: "string option"

text \<open>The criteria of \<^verbatim>\<open>findModels\<close>.\<close>

record criteria =
  c_type :: "string option"
  c_provider :: "string option"
  c_capability :: "string option"
  c_inputFormat :: "string option"
  c_outputFormat :: "string option"
  c_maxLatency :: "rat option"
  c_minReliability :: "rat option"
  c_tags :: "string list option"

text \<open>The registry: the three maps of the constructor.\<close>

datatype jsval =
    JUndefined
  | JNull
  | JBool bool
  | JNum rat
  | JInfinity
  | JNegInfinity
  | JStr string
  | JArr "jsval list"
  | JObj "(string \<times> jsval) list"

record registry =
  models :: "(string \<times> model_entry) list"
  agents :: "(string \<times> agent_entry) list"
  networks :: "(string \<times> jsval) list"

definition new_registry :: registry where
  "new_registry = \<lparr>models = [], agents = [], networks = []\<rparr>"

subsection \<open>Registration\<close>

text \<open>\<^verbatim>\<open>x || d\<close> for the property types of a request body.\<close>

fun or_str :: "string option \<Rightarrow> string \<Rightarrow> string" where
  "or_str None d = d"
| "or_str (Some s) d = (if s \<noteq> [] then s else d)"

text \<open>An array is an object, so it is truthy even when empty.\<close>

fun or_arr :: "'a list option \<Rightarrow> 'a list \<Rightarrow> 'a list" where
  "or_arr None d = d"
| "or_arr (Some xs) d = xs"

fun or_obj :: "'a option \<Rightarrow> 'a \<Rightarrow> 'a" where
  "or_obj None d = d"
| "or_obj (Some x) d = x"

fun or_rat :: "rat option \<Rightarrow> rat \<Rightarrow> rat" where
  "or_rat None d = d"
| "or_rat (Some x) d = (if x \<noteq> 0 then x else d)"

fun or_null :: "jsnum \<Rightarrow> jsnum" where
  "or_null Undefined = Null"
| "or_null Null = Null"
| "or_null (Num x) = (if x \<noteq> 0 then Num x else Null)"

definition default_schema :: communication_schema where
  "default_schema =
     \<lparr>s_requestFormat = Some ''openai-compatible'',
      s_responseFormat = Some ''openai-compatible'',
      s_streamingSupported = Some False,
      s_authMethod = Some ''api-key''\<rparr>"

text \<open>
  \<^verbatim>\<open>registerModel(modelData)\<close>. \<open>uuid\<close> is what \<^verbatim>\<open>uuidv4()\<close> would return and
  \<open>timestamp\<close> the clock reading; the result is the entry and the registry after
  \<^verbatim>\<open>this.models.set(modelId, modelEntry)\<close>.
\<close>

definition registerModel ::
  "string \<Rightarrow> string \<Rightarrow> model_data \<Rightarrow> registry \<Rightarrow> model_entry \<times> registry" where
  "registerModel uuid timestamp modelData R =
     (let modelId = or_str (d_id modelData) uuid;
          modelEntry =
            \<lparr>m_id = modelId,
             m_name = d_name modelData,
             m_type = d_type modelData,
             m_provider = d_provider modelData,
             m_endpoint = d_endpoint modelData,
             m_apiKey = d_apiKey modelData,
             m_protocol = or_str (d_protocol modelData) ''https'',
             m_capabilities = or_arr (d_capabilities modelData) [],
             m_inputFormats = or_arr (d_inputFormats modelData) [''text''],
             m_outputFormats = or_arr (d_outputFormats modelData) [''text''],
             m_maxTokens = d_maxTokens modelData,
             m_contextWindow = d_contextWindow modelData,
             m_communicationSchema = or_obj (d_communicationSchema modelData) default_schema,
             m_latencyMs = or_null (d_latencyMs modelData),
             m_reliability = or_rat (d_reliability modelData) 1,
             m_costPerToken = or_null (d_costPerToken modelData),
             m_rateLimit = or_null (d_rateLimit modelData),
             m_description = d_description modelData,
             m_tags = or_arr (d_tags modelData) [],
             m_version = or_str (d_version modelData) ''1.0'',
             m_registeredAt = timestamp,
             m_lastSeen = timestamp,
             m_lastUpdated = timestamp,
             m_status = ''active'',
             m_registeredBy = or_str (d_registeredBy modelData) ''manual''\<rparr>
      in (modelEntry, R\<lparr>models := AList.update modelId modelEntry (models R)\<rparr>))"

text \<open>\<^verbatim>\<open>registerAgent(agentData)\<close>.\<close>

definition registerAgent ::
  "string \<Rightarrow> string \<Rightarrow> agent_data \<Rightarrow> registry \<Rightarrow> agent_entry \<times> registry" where
  "registerAgent uuid timestamp agentData R =
     (let agentId = or_str (ad_id agentData) uuid;
          agentEntry =
            \<lparr>a_id = agentId,
             a_name = ad_name agentData,
             a_type = or_str (ad_type agentData) ''ultimate-agent'',
             a_endpoint = ad_endpoint agentData,
             a_dashboardPort = ad_dashboardPort agentData,
             a_capabilities = or_arr (ad_capabilities agentData) [],
             a_availableModels = or_arr (ad_availableModels agentData) [],
             a_preferredModels = or_arr (ad_preferredModels agentData) [],
             a_networkId = ad_networkId agentData,
             a_nodeUrl = ad_nodeUrl agentData,
             a_status = or_str (ad_status agentData) ''online'',
             a_lastHeartbeat = timestamp,
             a_registeredAt = timestamp,
             a_registeredBy = or_str (ad_registeredBy agentData) ''auto''\<rparr>
      in (agentEntry, R\<lparr>agents := AList.update agentId agentEntry (agents R)\<rparr>))"

subsection \<open>Finding models\<close>

text \<open>
  The eight tests of the loop body of \<^verbatim>\<open>findModels\<close>, one per source line
  (169 to 176): each says when its line sets \<^verbatim>\<open>matches = false\<close>. A criterion is read
  through \<^verbatim>\<open>criteria.x && ...\<close>, so a falsy value (absent, the empty string, zero)
  switches its line off.
\<close>

definition fails_type :: "criteria \<Rightarrow> model_entry \<Rightarrow> bool" where
  "fails_type criteria model =
     (str_truthy (c_type criteria) \<and> m_type model \<noteq> c_type criteria)"

definition fails_provider :: "criteria \<Rightarrow> model_entry \<Rightarrow> bool" where
  "fails_provider criteria model =
     (str_truthy (c_provider criteria) \<and> m_provider model \<noteq> c_provider criteria)"

definition fails_capability :: "criteria \<Rightarrow> model_entry \<Rightarrow> bool" where
  "fails_capability criteria model =
     (case c_capability criteria of
        None \<Rightarrow> False
      | Some cap \<Rightarrow> cap \<noteq> [] \<and> cap \<notin> set (m_capabilities model))"

definition fails_inputFormat :: "criteria \<Rightarrow> model_entry \<Rightarrow> bool" where
  "fails_inputFormat criteria model =
     (case c_inputFormat criteria of
        None \<Rightarrow> False
      | Some f \<Rightarrow> f \<noteq> [] \<and> f \<notin> set (m_inputFormats model))"

definition fails_outputFormat :: "criteria \<Rightarrow> model_entry \<Rightarrow> bool" where
  "fails_outputFormat criteria model =
     (case c_outputFormat criteria of
        None \<Rightarrow> False
      | Some f \<Rightarrow> f \<noteq> [] \<and> f \<notin> set (m_outputFormats model))"

definition fails_maxLatency :: "criteria \<Rightarrow> model_entry \<Rightarrow> bool" where
  "fails_maxLatency criteria model =
     (case c_maxLatency criteria of
        None \<Rightarrow> False
      | Some b \<Rightarrow> b \<noteq> 0 \<and> js_gt (m_latencyMs model) b)"

definition fails_minReliability :: "criteria \<Rightarrow> model_entry \<Rightarrow> bool" where
  "fails_minReliability criteria model =
     (case c_minReliability criteria of
        None \<Rightarrow> False
      | Some b \<Rightarrow> b \<noteq> 0 \<and> m_reliability model < b)"

definition fails_tags :: "criteria \<Rightarrow> model_entry \<Rightarrow> bool" where
  "fails_tags criteria model =
     (case c_tags criteria of
        None \<Rightarrow> False
      | Some ts \<Rightarrow> \<not> list_all (\<lambda>tag. tag \<in> set (m_tags model)) ts)"

text \<open>The loop body: \<^verbatim>\<open>matches\<close> starts true and each line may clear it.\<close>

definition matches_model :: "criteria \<Rightarrow> model_entry \<Rightarrow> bool" where
  "matches_model criteria model =
     (let matches = True;
          matches = (if fails_type criteria model then False else matches);
          matches = (if fails_provider criteria model then False else matches);
          matches = (if fails_capability criteria model then False else matches);
          matches = (if fails_inputFormat criteria model then False else matches);
          matches = (if fails_outputFormat criteria model then False else matches);
          matches = (if fails_maxLatency criteria model then False else matches);
          matches = (if fails_minReliability criteria model then False else matches);
          matches = (if fails_tags criteria model then False else matches)
      in matches)"

text \<open>\<^verbatim>\<open>a.latencyMs || 999999\<close>.\<close>

fun latency_or_sentinel :: "jsnum \<Rightarrow> rat" where
  "latency_or_sentinel Undefined = 999999"
| "latency_or_sentinel Null = 999999"
| "latency_or_sentinel (Num x) = (if x \<noteq> 0 then x else 999999)"

text \<open>The comparator handed to \<^verbatim>\<open>sort\<close>.\<close>

definition compare_models :: "model_entry \<Rightarrow> model_entry \<Rightarrow> rat" where
  "compare_models a b =
     (if m_reliability a \<noteq> m_reliability b
      then m_reliability b - m_reliability a
      else latency_or_sentinel (m_latencyMs a) - latency_or_sentinel (m_latencyMs b))"

text \<open>
  \<^verbatim>\<open>Array.prototype.sort(compareFn)\<close> belongs to the language, not to the repository.
  ECMAScript requires it to be stable, and for a comparator that is a consistent
  ordering the sorted array is then determined: it is the one that stable insertion
  produces. \<open>insert_cmp\<close> puts \<open>x\<close>, which stood before all of \<open>ys\<close>, in front of the
  first element it does not have to follow.
\<close>

fun insert_cmp :: "('a \<Rightarrow> 'a \<Rightarrow> rat) \<Rightarrow> 'a \<Rightarrow> 'a list \<Rightarrow> 'a list" where
  "insert_cmp cmp x [] = [x]"
| "insert_cmp cmp x (y # ys) =
     (if cmp x y \<le> 0 then x # y # ys else y # insert_cmp cmp x ys)"

definition js_sort :: "('a \<Rightarrow> 'a \<Rightarrow> rat) \<Rightarrow> 'a list \<Rightarrow> 'a list" where
  "js_sort cmp xs = foldr (insert_cmp cmp) xs []"

text \<open>The loop over \<^verbatim>\<open>this.models\<close>, in the map's order, then the sort.\<close>

definition findModels :: "criteria \<Rightarrow> registry \<Rightarrow> model_entry list" where
  "findModels criteria R =
     js_sort compare_models
       (fold (\<lambda>(id, model) results.
                if matches_model criteria model then results @ [model] else results)
             (models R) [])"

text \<open>\<^verbatim>\<open>findModels()\<close> with no argument, or with \<^verbatim>\<open>{}\<close>.\<close>

definition no_criteria :: criteria where
  "no_criteria =
     \<lparr>c_type = None, c_provider = None, c_capability = None, c_inputFormat = None,
      c_outputFormat = None, c_maxLatency = None, c_minReliability = None, c_tags = None\<rparr>"

subsection \<open>Update, heartbeat, removal, statistics\<close>

text \<open>\<^verbatim>\<open>app.get('/api/models/:id')\<close>: the entry, or \<open>None\<close> for the 404 answer.\<close>

definition getModel :: "string \<Rightarrow> registry \<Rightarrow> model_entry option" where
  "getModel modelId R = map_of (models R) modelId"

text \<open>
  \<^verbatim>\<open>updateModelStatus(modelId, status = 'active')\<close>. The entry is changed in place, so
  it keeps its position in the map. An omitted \<open>status\<close> argument is \<open>None\<close>.
\<close>

definition updateModelStatus :: "string \<Rightarrow> string \<Rightarrow> string option \<Rightarrow> registry \<Rightarrow> registry" where
  "updateModelStatus now modelId status R =
     (case map_of (models R) modelId of
        None \<Rightarrow> R
      | Some model \<Rightarrow>
          R\<lparr>models :=
              AList.update modelId
                (model\<lparr>m_lastSeen := now,
                       m_status := (case status of None \<Rightarrow> ''active'' | Some s \<Rightarrow> s)\<rparr>)
                (models R)\<rparr>)"

text \<open>
  The object spread \<^verbatim>\<open>{ ...existingModel, ...req.body }\<close>, property by property: a
  property of the body replaces the existing one, an absent property leaves it.
\<close>

fun spread :: "'a \<Rightarrow> 'a option \<Rightarrow> 'a" where
  "spread old None = old"
| "spread old (Some v) = v"

fun spread_opt :: "'a option \<Rightarrow> 'a option \<Rightarrow> 'a option" where
  "spread_opt old None = old"
| "spread_opt old (Some v) = Some v"

fun spread_num :: "jsnum \<Rightarrow> jsnum \<Rightarrow> jsnum" where
  "spread_num old Undefined = old"
| "spread_num old Null = Null"
| "spread_num old (Num x) = Num x"

text \<open>
  \<^verbatim>\<open>app.put('/api/models/:id')\<close>: \<open>None\<close> is the 404 answer; otherwise the updated
  entry and the registry after \<^verbatim>\<open>registry.models.set(modelId, updatedModel)\<close>.
  \<^verbatim>\<open>lastUpdated\<close> comes after the spread of the body, so the clock wins.
\<close>

definition updateModel ::
  "string \<Rightarrow> string \<Rightarrow> model_data \<Rightarrow> registry \<Rightarrow> (model_entry \<times> registry) option" where
  "updateModel now modelId body R =
     (case map_of (models R) modelId of
        None \<Rightarrow> None
      | Some existingModel \<Rightarrow>
          (let updatedModel =
             \<lparr>m_id = spread (m_id existingModel) (d_id body),
              m_name = spread_opt (m_name existingModel) (d_name body),
              m_type = spread_opt (m_type existingModel) (d_type body),
              m_provider = spread_opt (m_provider existingModel) (d_provider body),
              m_endpoint = spread_opt (m_endpoint existingModel) (d_endpoint body),
              m_apiKey = spread_opt (m_apiKey existingModel) (d_apiKey body),
              m_protocol = spread (m_protocol existingModel) (d_protocol body),
              m_capabilities = spread (m_capabilities existingModel) (d_capabilities body),
              m_inputFormats = spread (m_inputFormats existingModel) (d_inputFormats body),
              m_outputFormats = spread (m_outputFormats existingModel) (d_outputFormats body),
              m_maxTokens = spread_opt (m_maxTokens existingModel) (d_maxTokens body),
              m_contextWindow = spread_opt (m_contextWindow existingModel) (d_contextWindow body),
              m_communicationSchema =
                spread (m_communicationSchema existingModel) (d_communicationSchema body),
              m_latencyMs = spread_num (m_latencyMs existingModel) (d_latencyMs body),
              m_reliability = spread (m_reliability existingModel) (d_reliability body),
              m_costPerToken = spread_num (m_costPerToken existingModel) (d_costPerToken body),
              m_rateLimit = spread_num (m_rateLimit existingModel) (d_rateLimit body),
              m_description = spread_opt (m_description existingModel) (d_description body),
              m_tags = spread (m_tags existingModel) (d_tags body),
              m_version = spread (m_version existingModel) (d_version body),
              m_registeredAt = spread (m_registeredAt existingModel) (d_registeredAt body),
              m_lastSeen = spread (m_lastSeen existingModel) (d_lastSeen body),
              m_lastUpdated = now,
              m_status = spread (m_status existingModel) (d_status body),
              m_registeredBy = spread (m_registeredBy existingModel) (d_registeredBy body)\<rparr>
           in Some (updatedModel,
                    R\<lparr>models := AList.update modelId updatedModel (models R)\<rparr>)))"

text \<open>\<^verbatim>\<open>removeModel(modelId)\<close>: the returned boolean and the registry afterwards.\<close>

definition removeModel :: "string \<Rightarrow> registry \<Rightarrow> bool \<times> registry" where
  "removeModel modelId R =
     (case map_of (models R) modelId of
        Some model \<Rightarrow> (True, R\<lparr>models := AList.delete modelId (models R)\<rparr>)
      | None \<Rightarrow> (False, R))"

text \<open>
  \<^verbatim>\<open>getStats()\<close>. The two tallies are objects keyed by \<^verbatim>\<open>model.type\<close> and
  \<^verbatim>\<open>model.provider\<close>; an absent property gives the key \<^verbatim>\<open>"undefined"\<close>.
  \<^verbatim>\<open>process.uptime()\<close> and the clock are inputs.
\<close>

record stats =
  totalModels :: nat
  activeModels :: nat
  totalAgents :: nat
  modelsByType :: "string \<rightharpoonup> nat"
  modelsByProvider :: "string \<rightharpoonup> nat"
  uptime :: rat
  st_lastUpdated :: string

text \<open>\<^verbatim>\<open>String(x)\<close> for an optional string, as a property key and a template literal
  compute it.\<close>

fun js_to_string :: "string option \<Rightarrow> string" where
  "js_to_string None = ''undefined''"
| "js_to_string (Some s) = s"

text \<open>\<^verbatim>\<open>tally[k] = (tally[k] || 0) + 1\<close>.\<close>

definition tally :: "(string \<rightharpoonup> nat) \<Rightarrow> string \<Rightarrow> (string \<rightharpoonup> nat)" where
  "tally t k = t(k \<mapsto> (case t k of None \<Rightarrow> 0 | Some n \<Rightarrow> n) + 1)"

definition getStats_step :: "model_entry \<Rightarrow> stats \<Rightarrow> stats" where
  "getStats_step model st =
     st\<lparr>totalModels := totalModels st + 1,
        activeModels := (if m_status model = ''active'' then activeModels st + 1
                         else activeModels st),
        modelsByType := tally (modelsByType st) (js_to_string (m_type model)),
        modelsByProvider := tally (modelsByProvider st) (js_to_string (m_provider model))\<rparr>"

definition getStats :: "rat \<Rightarrow> string \<Rightarrow> registry \<Rightarrow> stats" where
  "getStats up now R =
     fold getStats_step (map snd (models R))
       \<lparr>totalModels = 0, activeModels = 0, totalAgents = length (agents R),
        modelsByType = Map.empty, modelsByProvider = Map.empty,
        uptime = up, st_lastUpdated = now\<rparr>"

subsection \<open>Ranking order, readings of the criteria, example data\<close>

text \<open>
  The comparator orders entries by the pair (reliability negated, latency with the
  sentinel), lexicographically: \<open>ranking_key\<close> names that pair, \<open>ranked_before\<close> the
  order the comparator induces between two entries.
\<close>

definition ranking_key :: "model_entry \<Rightarrow> rat \<times> rat" where
  "ranking_key m = (- m_reliability m, latency_or_sentinel (m_latencyMs m))"

definition ranked_before :: "model_entry \<Rightarrow> model_entry \<Rightarrow> bool" where
  "ranked_before a b =
     (m_reliability a > m_reliability b \<or>
      (m_reliability a = m_reliability b \<and>
       latency_or_sentinel (m_latencyMs a) \<le> latency_or_sentinel (m_latencyMs b)))"

text \<open>
  The order as the specification words it: latency ascending, an entry with unset
  latency after every entry whose latency is set.
\<close>

fun latency_le_unset_last :: "jsnum \<Rightarrow> jsnum \<Rightarrow> bool" where
  "latency_le_unset_last (Num x) (Num y) = (x \<le> y)"
| "latency_le_unset_last (Num x) b = True"
| "latency_le_unset_last a (Num y) = False"
| "latency_le_unset_last a b = True"

definition spec_ranked_before :: "model_entry \<Rightarrow> model_entry \<Rightarrow> bool" where
  "spec_ranked_before a b =
     (m_reliability a > m_reliability b \<or>
      (m_reliability a = m_reliability b \<and>
       latency_le_unset_last (m_latencyMs a) (m_latencyMs b)))"

text \<open>
  The filter as the specification words it: every criterion that is supplied (present
  in the mapping) constrains the entry, and unset latency passes \<^verbatim>\<open>maxLatency\<close>.
\<close>

definition satisfies_supplied :: "criteria \<Rightarrow> model_entry \<Rightarrow> bool" where
  "satisfies_supplied c m =
     ((case c_type c of None \<Rightarrow> True | Some t \<Rightarrow> m_type m = Some t) \<and>
      (case c_provider c of None \<Rightarrow> True | Some p \<Rightarrow> m_provider m = Some p) \<and>
      (case c_capability c of None \<Rightarrow> True | Some cap \<Rightarrow> cap \<in> set (m_capabilities m)) \<and>
      (case c_inputFormat c of None \<Rightarrow> True | Some f \<Rightarrow> f \<in> set (m_inputFormats m)) \<and>
      (case c_outputFormat c of None \<Rightarrow> True | Some f \<Rightarrow> f \<in> set (m_outputFormats m)) \<and>
      (case c_maxLatency c of None \<Rightarrow> True
       | Some b \<Rightarrow> (case m_latencyMs m of Num x \<Rightarrow> x \<le> b | _ \<Rightarrow> True)) \<and>
      (case c_minReliability c of None \<Rightarrow> True | Some b \<Rightarrow> b \<le> m_reliability m) \<and>
      (case c_tags c of None \<Rightarrow> True | Some ts \<Rightarrow> set ts \<subseteq> set (m_tags m)))"

text \<open>
  The filter the code applies: a criterion constrains the entry only when its value is
  truthy, and for \<^verbatim>\<open>maxLatency\<close> a \<^verbatim>\<open>null\<close> latency counts as \<open>0\<close>.
\<close>

definition satisfies_truthy :: "criteria \<Rightarrow> model_entry \<Rightarrow> bool" where
  "satisfies_truthy c m =
     ((case c_type c of None \<Rightarrow> True | Some t \<Rightarrow> t = [] \<or> m_type m = Some t) \<and>
      (case c_provider c of None \<Rightarrow> True | Some p \<Rightarrow> p = [] \<or> m_provider m = Some p) \<and>
      (case c_capability c of None \<Rightarrow> True
       | Some cap \<Rightarrow> cap = [] \<or> cap \<in> set (m_capabilities m)) \<and>
      (case c_inputFormat c of None \<Rightarrow> True
       | Some f \<Rightarrow> f = [] \<or> f \<in> set (m_inputFormats m)) \<and>
      (case c_outputFormat c of None \<Rightarrow> True
       | Some f \<Rightarrow> f = [] \<or> f \<in> set (m_outputFormats m)) \<and>
      (case c_maxLatency c of None \<Rightarrow> True
       | Some b \<Rightarrow> b = 0 \<or>
           (case m_latencyMs m of Undefined \<Rightarrow> True | Null \<Rightarrow> 0 \<le> b | Num x \<Rightarrow> x \<le> b)) \<and>
      (case c_minReliability c of None \<Rightarrow> True | Some b \<Rightarrow> b = 0 \<or> b \<le> m_reliability m) \<and>
      (case c_tags c of None \<Rightarrow> True | Some ts \<Rightarrow> set ts \<subseteq> set (m_tags m)))"

text \<open>The empty request body \<^verbatim>\<open>{}\<close>, and the two models of the specification's
  example scenarios, registered in that order into a fresh registry.\<close>

definition no_data :: model_data where
  "no_data =
     \<lparr>d_id = None, d_name = None, d_type = None, d_provider = None, d_endpoint = None,
      d_apiKey = None, d_protocol = None, d_capabilities = None, d_inputFormats = None,
      d_outputFormats = None, d_maxTokens = None, d_contextWindow = None,
      d_communicationSchema = None, d_latencyMs = Undefined, d_reliability = None,
      d_costPerToken = Undefined, d_rateLimit = Undefined, d_description = None,
      d_tags = None, d_version = None, d_registeredBy = None, d_status = None,
      d_registeredAt = None, d_lastSeen = None, d_lastUpdated = None\<rparr>"

definition gpt4_data :: model_data where
  "gpt4_data =
     no_data\<lparr>d_name := Some ''gpt-4'', d_type := Some ''llm'', d_provider := Some ''openai'',
             d_latencyMs := Num 1500, d_reliability := Some (99 / 100)\<rparr>"

definition llama2_data :: model_data where
  "llama2_data =
     no_data\<lparr>d_name := Some ''llama2'', d_type := Some ''llm'', d_provider := Some ''ollama'',
             d_latencyMs := Num 3000, d_reliability := Some (95 / 100)\<rparr>"

definition gpt4_entry :: model_entry where
  "gpt4_entry = fst (registerModel ''id-1'' ''2024-01-01T00:00:00.000Z'' gpt4_data new_registry)"

definition llama2_entry :: model_entry where
  "llama2_entry = fst (registerModel ''id-2'' ''2024-01-02T00:00:00.000Z'' llama2_data new_registry)"

definition two_models :: registry where
  "two_models =
     snd (registerModel ''id-2'' ''2024-01-02T00:00:00.000Z'' llama2_data
       (snd (registerModel ''id-1'' ''2024-01-01T00:00:00.000Z'' gpt4_data new_registry)))"

text \<open>A model registered without a latency, and one slower than the sentinel.\<close>

definition unmeasured_entry :: model_entry where
  "unmeasured_entry =
     fst (registerModel ''id-u'' ''2024-01-03T00:00:00.000Z''
            (no_data\<lparr>d_name := Some ''unmeasured''\<rparr>) new_registry)"

definition slow_entry :: model_entry where
  "slow_entry =
     fst (registerModel ''id-s'' ''2024-01-04T00:00:00.000Z''
            (no_data\<lparr>d_name := Some ''slow'', d_latencyMs := Num 2000000\<rparr>) new_registry)"

definition slow_then_unmeasured :: registry where
  "slow_then_unmeasured =
     \<lparr>models = [(''id-s'', slow_entry), (''id-u'', unmeasured_entry)],
      agents = [], networks = []\<rparr>"

definition only_unmeasured :: registry where
  "only_unmeasured = \<lparr>models = [(''id-u'', unmeasured_entry)], agents = [], networks = []\<rparr>"

text \<open>Criteria that supply \<^verbatim>\<open>maxLatency\<close> alone.\<close>

definition max_latency_only :: "rat \<Rightarrow> criteria" where
  "max_latency_only b = no_criteria\<lparr>c_maxLatency := Some b\<rparr>"

subsection \<open>Objects\<close>

text \<open>
  Where the code hands out an object (the communication descriptor, the snapshot) the
  object is a \<open>jsval\<close>: \<open>JObj\<close> lists the own properties in their order. A typed
  record is turned into its object by listing its properties in the order of the
  source; a property whose value is \<^verbatim>\<open>undefined\<close> stays in the list with the value
  \<open>JUndefined\<close>.
\<close>

fun property :: "jsval \<Rightarrow> string \<Rightarrow> jsval option" where
  "property (JObj kvs) k = map_of kvs k"
| "property v k = None"

text \<open>\<^verbatim>\<open>Object.keys(v)\<close> for an object.\<close>

fun own_keys :: "jsval \<Rightarrow> string list" where
  "own_keys (JObj kvs) = map fst kvs"
| "own_keys v = []"

fun js_str :: "string option \<Rightarrow> jsval" where
  "js_str None = JUndefined"
| "js_str (Some s) = JStr s"

fun js_num :: "js_number option \<Rightarrow> jsval" where
  "js_num None = JUndefined"
| "js_num (Some (Finite x)) = JNum x"
| "js_num (Some PosInfinity) = JInfinity"
| "js_num (Some NegInfinity) = JNegInfinity"

fun js_bool :: "bool option \<Rightarrow> jsval" where
  "js_bool None = JUndefined"
| "js_bool (Some b) = JBool b"

fun js_jsnum :: "jsnum \<Rightarrow> jsval" where
  "js_jsnum Undefined = JUndefined"
| "js_jsnum Null = JNull"
| "js_jsnum (Num x) = JNum x"

definition js_strs :: "string list \<Rightarrow> jsval" where
  "js_strs xs = JArr (map JStr xs)"

definition schema_obj :: "communication_schema \<Rightarrow> jsval" where
  "schema_obj s =
     JObj [(''requestFormat'', js_str (s_requestFormat s)),
           (''responseFormat'', js_str (s_responseFormat s)),
           (''streamingSupported'', js_bool (s_streamingSupported s)),
           (''authMethod'', js_str (s_authMethod s))]"

definition model_obj :: "model_entry \<Rightarrow> jsval" where
  "model_obj m =
     JObj [(''id'', JStr (m_id m)),
           (''name'', js_str (m_name m)),
           (''type'', js_str (m_type m)),
           (''provider'', js_str (m_provider m)),
           (''endpoint'', js_str (m_endpoint m)),
           (''apiKey'', js_str (m_apiKey m)),
           (''protocol'', JStr (m_protocol m)),
           (''capabilities'', js_strs (m_capabilities m)),
           (''inputFormats'', js_strs (m_inputFormats m)),
           (''outputFormats'', js_strs (m_outputFormats m)),
           (''maxTokens'', js_num (m_maxTokens m)),
           (''contextWindow'', js_num (m_contextWindow m)),
           (''communicationSchema'', schema_obj (m_communicationSchema m)),
           (''latencyMs'', js_jsnum (m_latencyMs m)),
           (''reliability'', JNum (m_reliability m)),
           (''costPerToken'', js_jsnum (m_costPerToken m)),
           (''rateLimit'', js_jsnum (m_rateLimit m)),
           (''description'', js_str (m_description m)),
           (''tags'', js_strs (m_tags m)),
           (''version'', JStr (m_version m)),
           (''registeredAt'', JStr (m_registeredAt m)),
           (''lastSeen'', JStr (m_lastSeen m)),
           (''lastUpdated'', JStr (m_lastUpdated m)),
           (''status'', JStr (m_status m)),
           (''registeredBy'', JStr (m_registeredBy m))]"

definition agent_obj :: "agent_entry \<Rightarrow> jsval" where
  "agent_obj a =
     JObj [(''id'', JStr (a_id a)),
           (''name'', js_str (a_name a)),
           (''type'', JStr (a_type a)),
           (''endpoint'', js_str (a_endpoint a)),
           (''dashboardPort'', js_num (a_dashboardPort a)),
           (''capabilities'', js_strs (a_capabilities a)),
           (''availableModels'', js_strs (a_availableModels a)),
           (''preferredModels'', js_strs (a_preferredModels a)),
           (''networkId'', js_str (a_networkId a)),
           (''nodeUrl'', js_str (a_nodeUrl a)),
           (''status'', JStr (a_status a)),
           (''lastHeartbeat'', JStr (a_lastHeartbeat a)),
           (''registeredAt'', JStr (a_registeredAt a)),
           (''registeredBy'', JStr (a_registeredBy a))]"

subsection \<open>The communication descriptor\<close>

text \<open>
  \<^verbatim>\<open>generateExampleRequest(model)\<close>: a table of three templates, indexed by the
  request format, with the \<^verbatim>\<open>openai-compatible\<close> template as the fallback of
  \<^verbatim>\<open>examples[...] || examples['openai-compatible']\<close>. (A format that names a property
  of \<^verbatim>\<open>Object.prototype\<close>, such as \<^verbatim>\<open>constructor\<close>, would find that property in the
  table; such formats are outside the embedding.)
\<close>

definition request_examples :: "model_entry \<Rightarrow> (string \<times> jsval) list" where
  "request_examples model =
     [(''openai-compatible'',
         JObj [(''method'', JStr ''POST''),
               (''endpoint'', JStr (js_to_string (m_endpoint model) @ ''/v1/chat/completions'')),
               (''headers'',
                  JObj [(''Content-Type'', JStr ''application/json''),
                        (''Authorization'', JStr ''Bearer YOUR_API_KEY'')]),
               (''body'',
                  JObj [(''model'', js_str (m_name model)),
                        (''messages'',
                           JArr [JObj [(''role'', JStr ''user''),
                                       (''content'', JStr ''Hello, how can you help me?'')]]),
                        (''max_tokens'', JNum 150),
                        (''temperature'', JNum (7 / 10))])]),
      (''anthropic'',
         JObj [(''method'', JStr ''POST''),
               (''endpoint'', JStr (js_to_string (m_endpoint model) @ ''/v1/messages'')),
               (''headers'',
                  JObj [(''Content-Type'', JStr ''application/json''),
                        (''x-api-key'', JStr ''YOUR_API_KEY''),
                        (''anthropic-version'', JStr ''2023-06-01'')]),
               (''body'',
                  JObj [(''model'', js_str (m_name model)),
                        (''max_tokens'', JNum 150),
                        (''messages'',
                           JArr [JObj [(''role'', JStr ''user''),
                                       (''content'', JStr ''Hello, how can you help me?'')]])])]),
      (''ollama'',
         JObj [(''method'', JStr ''POST''),
               (''endpoint'', JStr (js_to_string (m_endpoint model) @ ''/api/generate'')),
               (''headers'', JObj [(''Content-Type'', JStr ''application/json'')]),
               (''body'',
                  JObj [(''model'', js_str (m_name model)),
                        (''prompt'', JStr ''Hello, how can you help me?''),
                        (''stream'', JBool False)])])]"

text \<open>\<^verbatim>\<open>examples[format] || examples['openai-compatible']\<close>; every template is an
  object, hence truthy.\<close>

definition select_example :: "(string \<times> jsval) list \<Rightarrow> string option \<Rightarrow> jsval" where
  "select_example examples format =
     (case map_of examples (js_to_string format) of
        Some e \<Rightarrow> e
      | None \<Rightarrow>
          (case map_of examples ''openai-compatible'' of Some e \<Rightarrow> e | None \<Rightarrow> JUndefined))"

definition generateExampleRequest :: "model_entry \<Rightarrow> jsval" where
  "generateExampleRequest model =
     select_example (request_examples model)
       (s_requestFormat (m_communicationSchema model))"

text \<open>
  \<^verbatim>\<open>generateExampleResponse(model)\<close>. \<open>now_ms\<close> is \<^verbatim>\<open>Date.now()\<close> and \<open>now\<close> is
  \<^verbatim>\<open>new Date().toISOString()\<close>.
\<close>

definition response_examples :: "int \<Rightarrow> string \<Rightarrow> model_entry \<Rightarrow> (string \<times> jsval) list" where
  "response_examples now_ms now model =
     [(''openai-compatible'',
         JObj [(''id'', JStr ''chatcmpl-123''),
               (''object'', JStr ''chat.completion''),
               (''created'', JNum (of_int (now_ms div 1000))),
               (''model'', js_str (m_name model)),
               (''choices'',
                  JArr [JObj [(''index'', JNum 0),
                              (''message'',
                                 JObj [(''role'', JStr ''assistant''),
                                       (''content'',
                                          JStr ''Hello! I can help you with various tasks...'')]),
                              (''finish_reason'', JStr ''stop'')]])]),
      (''anthropic'',
         JObj [(''id'', JStr ''msg_123''),
               (''type'', JStr ''message''),
               (''role'', JStr ''assistant''),
               (''content'',
                  JArr [JObj [(''type'', JStr ''text''),
                              (''text'', JStr ''Hello! I can help you with various tasks...'')]]),
               (''model'', js_str (m_name model)),
               (''stop_reason'', JStr ''end_turn'')]),
      (''ollama'',
         JObj [(''model'', js_str (m_name model)),
               (''created_at'', JStr now),
               (''response'', JStr ''Hello! I can help you with various tasks...''),
               (''done'', JBool True)])]"

definition generateExampleResponse :: "int \<Rightarrow> string \<Rightarrow> model_entry \<Rightarrow> jsval" where
  "generateExampleResponse now_ms now model =
     select_example (response_examples now_ms now model)
       (s_responseFormat (m_communicationSchema model))"

text \<open>\<^verbatim>\<open>getModelCommunication(modelId)\<close>: \<open>None\<close> is the \<^verbatim>\<open>null\<close> returned for an
  unknown id.\<close>

definition getModelCommunication :: "int \<Rightarrow> string \<Rightarrow> string \<Rightarrow> registry \<Rightarrow> jsval option" where
  "getModelCommunication now_ms now modelId R =
     (case map_of (models R) modelId of
        None \<Rightarrow> None
      | Some model \<Rightarrow>
          Some (JObj
            [(''id'', JStr (m_id model)),
             (''name'', js_str (m_name model)),
             (''endpoint'', js_str (m_endpoint model)),
             (''protocol'', JStr (m_protocol model)),
             (''communicationSchema'', schema_obj (m_communicationSchema model)),
             (''authMethod'', js_str (s_authMethod (m_communicationSchema model))),
             (''apiKey'', if str_truthy (m_apiKey model) then JStr ''***hidden***'' else JNull),
             (''exampleRequest'', generateExampleRequest model),
             (''exampleResponse'', generateExampleResponse now_ms now model)]))"

subsection \<open>The snapshot file\<close>

text \<open>
  \<^verbatim>\<open>JSON.stringify\<close>, \<^verbatim>\<open>JSON.parse\<close> and the file system belong to the runtime. The
  file is represented by the value \<^verbatim>\<open>JSON.parse\<close> yields for its content, so writing
  \<^verbatim>\<open>JSON.stringify(v)\<close> leaves \<open>json_value v\<close> in the file: \<^verbatim>\<open>JSON.stringify\<close> skips a
  property whose value is \<^verbatim>\<open>undefined\<close>, writes \<^verbatim>\<open>null\<close> for such an element of an
  array, and writes \<^verbatim>\<open>null\<close> for a number that is not finite; everything else comes
  back as it was.
\<close>

fun undefined_to_null :: "jsval \<Rightarrow> jsval" where
  "undefined_to_null JUndefined = JNull"
| "undefined_to_null v = v"

primrec json_value :: "jsval \<Rightarrow> jsval" where
  "json_value JUndefined = JUndefined"
| "json_value JNull = JNull"
| "json_value (JBool b) = JBool b"
| "json_value (JNum x) = JNum x"
| "json_value JInfinity = JNull"
| "json_value JNegInfinity = JNull"
| "json_value (JStr s) = JStr s"
| "json_value (JArr vs) = JArr (map undefined_to_null (map json_value vs))"
| "json_value (JObj kvs) =
     JObj (filter (\<lambda>(k, v). v \<noteq> JUndefined) (map (map_prod id json_value) kvs))"

text \<open>
  The own properties of an ordinary object are enumerated with the array indices
  first, in ascending numeric order, and then the other keys in the order of their
  creation. An array index is the canonical decimal numeral of a number below
  \<open>2\<^sup>3\<^sup>2 - 1\<close>.
\<close>

definition is_digit :: "char \<Rightarrow> bool" where
  "is_digit c = (48 \<le> (of_char c :: nat) \<and> (of_char c :: nat) \<le> 57)"

definition index_value :: "string \<Rightarrow> nat" where
  "index_value s = foldl (\<lambda>n c. 10 * n + (of_char c - 48)) 0 s"

definition is_array_index :: "string \<Rightarrow> bool" where
  "is_array_index s =
     (case s of
        [] \<Rightarrow> False
      | c # cs \<Rightarrow>
          list_all is_digit s \<and> (c \<noteq> CHR ''0'' \<or> cs = []) \<and> index_value s < 4294967295)"

definition own_property_order :: "(string \<times> 'a) list \<Rightarrow> (string \<times> 'a) list" where
  "own_property_order kvs =
     sort_key (\<lambda>(k, v). index_value k) (filter (\<lambda>(k, v). is_array_index k) kvs)
     @ filter (\<lambda>(k, v). \<not> is_array_index k) kvs"

text \<open>\<^verbatim>\<open>new Map(entries)\<close>: a key that comes again replaces the value in place.\<close>

definition Map_of_entries :: "(string \<times> 'a) list \<Rightarrow> (string \<times> 'a) list" where
  "Map_of_entries entries = fold (\<lambda>(k, v) m. AList.update k v m) entries []"

text \<open>\<^verbatim>\<open>Object.fromEntries(map)\<close>: the properties of the new object, as enumerated.\<close>

definition Object_fromEntries :: "(string \<times> jsval) list \<Rightarrow> jsval" where
  "Object_fromEntries entries = JObj (own_property_order (Map_of_entries entries))"

text \<open>The object \<^verbatim>\<open>data\<close> that \<^verbatim>\<open>saveData\<close> builds.\<close>

definition snapshot :: "string \<Rightarrow> registry \<Rightarrow> jsval" where
  "snapshot now R =
     JObj [(''models'', Object_fromEntries (map (\<lambda>(k, m). (k, model_obj m)) (models R))),
           (''agents'', Object_fromEntries (map (\<lambda>(k, a). (k, agent_obj a)) (agents R))),
           (''networks'', Object_fromEntries (networks R)),
           (''lastUpdated'', JStr now)]"

text \<open>
  \<^verbatim>\<open>saveData()\<close>, as a function of the file: \<open>None\<close> is a missing file or one that
  \<^verbatim>\<open>JSON.parse\<close> rejects. \<open>writable\<close> says whether \<^verbatim>\<open>fs.writeFile\<close> succeeds; when it
  fails the error is logged and the file stays as it was.
\<close>

definition saveData :: "bool \<Rightarrow> string \<Rightarrow> registry \<Rightarrow> jsval option \<Rightarrow> jsval option" where
  "saveData writable now R file =
     (if writable then Some (json_value (snapshot now R)) else file)"




















subsection \<open>Further example data\<close>

text \<open>A model registered with the key \<^verbatim>\<open>"secret"\<close> and with that same word as its
  name.\<close>

definition secret_data :: model_data where
  "secret_data = no_data\<lparr>d_id := Some ''m1'', d_name := Some ''secret'', d_apiKey := Some ''secret''\<rparr>"

definition secret_registry :: registry where
  "secret_registry =
     snd (registerModel ''uuid-1'' ''2024-01-01T00:00:00.000Z'' secret_data new_registry)"

definition secret_entry :: model_entry where
  "secret_entry =
     fst (registerModel ''uuid-1'' ''2024-01-01T00:00:00.000Z'' secret_data new_registry)"

definition secret_descriptor :: jsval where
  "secret_descriptor =
     (case getModelCommunication 1704067200000 ''2024-01-01T00:00:00.000Z'' ''m1'' secret_registry of
        Some d \<Rightarrow> d
      | None \<Rightarrow> JUndefined)"

text \<open>An agent, registered into the registry of the two example models.\<close>

definition worker_data :: agent_data where
  "worker_data =
     \<lparr>ad_id = Some ''agent-1'', ad_name = Some ''worker'', ad_type = None,
      ad_endpoint = Some ''http://localhost:8080'', ad_dashboardPort = Some (Finite 8080),
      ad_capabilities = None, ad_availableModels = Some [''gpt-4''],
      ad_preferredModels = None, ad_networkId = None, ad_nodeUrl = None,
      ad_status = None, ad_registeredBy = None\<rparr>"

definition worker_entry :: agent_entry where
  "worker_entry =
     fst (registerAgent ''uuid-a'' ''2024-01-05T00:00:00.000Z'' worker_data two_models)"

definition models_and_agent :: registry where
  "models_and_agent =
     snd (registerAgent ''uuid-a'' ''2024-01-05T00:00:00.000Z'' worker_data two_models)"




text \<open>The same registry with one network, as \<^verbatim>\<open>loadData\<close> would have read it from a
  file.\<close>

definition with_network :: registry where
  "with_network = models_and_agent\<lparr>networks := [(''net-1'', JObj [(''name'', JStr ''main'')])]\<rparr>"

section \<open>Properties\<close>

subsection \<open>The query loop and the sort\<close>

lemma loop_filter:
  "fold (\<lambda>(id, model) results. if P model then results @ [model] else results) kvs acc
     = acc @ filter P (map snd kvs)"
  by (induction kvs arbitrary: acc) (auto split: prod.splits)

lemma matches_model_iff:
  "matches_model c m \<longleftrightarrow>
     \<not> fails_type c m \<and> \<not> fails_provider c m \<and> \<not> fails_capability c m \<and>
     \<not> fails_inputFormat c m \<and> \<not> fails_outputFormat c m \<and> \<not> fails_maxLatency c m \<and>
     \<not> fails_minReliability c m \<and> \<not> fails_tags c m"
  by (simp add: matches_model_def Let_def)

lemma compare_models_le: "compare_models a b \<le> 0 \<longleftrightarrow> ranking_key a \<le> ranking_key b"
  by (auto simp: compare_models_def ranking_key_def less_eq_prod_def)

lemma insert_cmp_insort: "insert_cmp compare_models x ys = insort_key ranking_key x ys"
  by (induction ys) (simp_all add: compare_models_le)

lemma js_sort_sort_key: "js_sort compare_models xs = sort_key ranking_key xs"
  unfolding js_sort_def sort_key_def
  by (induction xs) (simp_all add: insert_cmp_insort)

lemma findModels_eq:
  "findModels c R = sort_key ranking_key (filter (matches_model c) (map snd (models R)))"
  by (simp add: findModels_def loop_filter js_sort_sort_key)

lemma js_gt_cases:
  "js_gt l b \<longleftrightarrow> \<not> (case l of Undefined \<Rightarrow> True | Null \<Rightarrow> 0 \<le> b | Num x \<Rightarrow> x \<le> b)"
  by (cases l) auto

lemma type_ok:
  "\<not> fails_type c m \<longleftrightarrow>
     (case c_type c of None \<Rightarrow> True | Some t \<Rightarrow> t = [] \<or> m_type m = Some t)"
  by (cases "c_type c") (auto simp: fails_type_def)

lemma provider_ok:
  "\<not> fails_provider c m \<longleftrightarrow>
     (case c_provider c of None \<Rightarrow> True | Some p \<Rightarrow> p = [] \<or> m_provider m = Some p)"
  by (cases "c_provider c") (auto simp: fails_provider_def)

lemma capability_ok:
  "\<not> fails_capability c m \<longleftrightarrow>
     (case c_capability c of None \<Rightarrow> True
      | Some cap \<Rightarrow> cap = [] \<or> cap \<in> set (m_capabilities m))"
  by (cases "c_capability c") (auto simp: fails_capability_def)

lemma inputFormat_ok:
  "\<not> fails_inputFormat c m \<longleftrightarrow>
     (case c_inputFormat c of None \<Rightarrow> True
      | Some f \<Rightarrow> f = [] \<or> f \<in> set (m_inputFormats m))"
  by (cases "c_inputFormat c") (auto simp: fails_inputFormat_def)

lemma outputFormat_ok:
  "\<not> fails_outputFormat c m \<longleftrightarrow>
     (case c_outputFormat c of None \<Rightarrow> True
      | Some f \<Rightarrow> f = [] \<or> f \<in> set (m_outputFormats m))"
  by (cases "c_outputFormat c") (auto simp: fails_outputFormat_def)

lemma maxLatency_ok:
  "\<not> fails_maxLatency c m \<longleftrightarrow>
     (case c_maxLatency c of None \<Rightarrow> True
      | Some b \<Rightarrow> b = 0 \<or>
          (case m_latencyMs m of Undefined \<Rightarrow> True | Null \<Rightarrow> 0 \<le> b | Num x \<Rightarrow> x \<le> b))"
  by (cases "c_maxLatency c") (auto simp: fails_maxLatency_def js_gt_cases)

lemma minReliability_ok:
  "\<not> fails_minReliability c m \<longleftrightarrow>
     (case c_minReliability c of None \<Rightarrow> True | Some b \<Rightarrow> b = 0 \<or> b \<le> m_reliability m)"
  by (cases "c_minReliability c") (auto simp: fails_minReliability_def)

lemma tags_ok:
  "\<not> fails_tags c m \<longleftrightarrow>
     (case c_tags c of None \<Rightarrow> True | Some ts \<Rightarrow> set ts \<subseteq> set (m_tags m))"
  by (cases "c_tags c") (auto simp: fails_tags_def list_all_iff)

lemma matches_model_truthy: "matches_model c m \<longleftrightarrow> satisfies_truthy c m"
  unfolding matches_model_iff satisfies_truthy_def
  by (simp only: type_ok provider_ok capability_ok inputFormat_ok outputFormat_ok
      maxLatency_ok minReliability_ok tags_ok)

lemma matches_model_no_criteria: "matches_model no_criteria m"
  by (simp add: matches_model_truthy satisfies_truthy_def no_criteria_def)

lemma findModels_no_criteria:
  "findModels no_criteria R = sort_key ranking_key (map snd (models R))"
  by (simp add: findModels_eq matches_model_no_criteria)

text \<open>Evaluation of the example data.\<close>

lemmas example_defs =
  registerModel_def new_registry_def Let_def no_data_def gpt4_data_def llama2_data_def
  gpt4_entry_def llama2_entry_def unmeasured_entry_def slow_entry_def

lemma two_models_models: "models two_models = [(''id-1'', gpt4_entry), (''id-2'', llama2_entry)]"
  by (simp add: two_models_def example_defs)

subsection \<open>Filtering\<close>

text \<open>
  C1 (as the code has it). For every registry and every criteria mapping,
  \<^verbatim>\<open>findModels\<close> returns exactly the entries of the store, each as often as the store
  holds it, that satisfy every criterion whose value is truthy: a criterion that is
  absent, or supplied as the empty string or as zero, imposes no constraint, and
  \<^verbatim>\<open>maxLatency\<close> reads a \<^verbatim>\<open>null\<close> latency as \<open>0\<close>. When no entry qualifies the result
  is the empty list; no error is raised (the function is total).
\<close>

theorem C1_findModels_exact:
  "mset (findModels c R) = mset (filter (satisfies_truthy c) (map snd (models R))) \<and>
   ((\<forall>m \<in> set (map snd (models R)). \<not> satisfies_truthy c m) \<longrightarrow> findModels c R = [])"
proof -
  have eq: "matches_model c = satisfies_truthy c"
    by (rule ext) (rule matches_model_truthy)
  have "mset (findModels c R) = mset (filter (satisfies_truthy c) (map snd (models R)))"
    by (simp add: findModels_eq eq)
  moreover have "findModels c R = []"
    if "\<forall>m \<in> set (map snd (models R)). \<not> satisfies_truthy c m"
  proof -
    from that have "filter (satisfies_truthy c) (map snd (models R)) = []"
      by (simp add: filter_empty_conv)
    then show ?thesis by (simp add: findModels_eq eq)
  qed
  ultimately show ?thesis by blast
qed

text \<open>Scenario 2 of the specification: no model of the store is by \<open>anthropic\<close>.\<close>

theorem C1_findModels_exact_witness:
  "filter (satisfies_truthy (no_criteria\<lparr>c_provider := Some ''anthropic''\<rparr>))
       (map snd (models two_models)) = [] \<and>
   findModels (no_criteria\<lparr>c_provider := Some ''anthropic''\<rparr>) two_models = []"
proof -
  have none: "filter (satisfies_truthy (no_criteria\<lparr>c_provider := Some ''anthropic''\<rparr>))
       (map snd (models two_models)) = []"
    by (simp add: two_models_models satisfies_truthy_def no_criteria_def example_defs)
  then have "\<forall>m \<in> set (map snd (models two_models)).
       \<not> satisfies_truthy (no_criteria\<lparr>c_provider := Some ''anthropic''\<rparr>) m"
    by (simp only: filter_empty_conv)
  with C1_findModels_exact [of "no_criteria\<lparr>c_provider := Some ''anthropic''\<rparr>" two_models]
  have "findModels (no_criteria\<lparr>c_provider := Some ''anthropic''\<rparr>) two_models = []"
    by blast
  with none show ?thesis by blast
qed

text \<open>
  The claim as worded fails: \<^verbatim>\<open>findModels({maxLatency: 0})\<close> returns both example
  models, whose latencies 1500 and 3000 exceed the supplied bound \<open>0\<close>, while no entry
  of the store satisfies the supplied criterion.
\<close>

theorem C1_counterexample:
  "findModels (max_latency_only 0) two_models = [gpt4_entry, llama2_entry] \<and>
   \<not> satisfies_supplied (max_latency_only 0) gpt4_entry \<and>
   \<not> satisfies_supplied (max_latency_only 0) llama2_entry"
proof -
  have "findModels (max_latency_only 0) two_models = [gpt4_entry, llama2_entry]"
    by (simp add: findModels_eq matches_model_truthy satisfies_truthy_def two_models_models
        max_latency_only_def no_criteria_def ranking_key_def example_defs)
  moreover have "\<not> satisfies_supplied (max_latency_only 0) gpt4_entry"
    by (simp add: satisfies_supplied_def max_latency_only_def no_criteria_def example_defs)
  moreover have "\<not> satisfies_supplied (max_latency_only 0) llama2_entry"
    by (simp add: satisfies_supplied_def max_latency_only_def no_criteria_def example_defs)
  ultimately show ?thesis by blast
qed

subsection \<open>Ranking\<close>

lemma sorted_ranking: "sorted_wrt ranked_before (sort_key ranking_key xs)"
proof -
  have "sorted (map ranking_key (sort_key ranking_key xs))"
    by (rule sorted_sort_key)
  then have "sorted_wrt (\<lambda>a b. ranking_key a \<le> ranking_key b) (sort_key ranking_key xs)"
    by (simp add: sorted_wrt_map)
  moreover have "ranking_key a \<le> ranking_key b \<longleftrightarrow> ranked_before a b" for a b
    by (auto simp: ranking_key_def ranked_before_def less_eq_prod_def)
  ultimately show ?thesis by simp
qed

lemma ranking_key_eq:
  "m_reliability m = r \<and> latency_or_sentinel (m_latencyMs m) = l \<longleftrightarrow> ranking_key m = (- r, l)"
  by (auto simp: ranking_key_def)

text \<open>
  C2 (as the code has it). In the list \<^verbatim>\<open>findModels\<close> returns, an entry \<open>a\<close> that
  precedes an entry \<open>b\<close> has higher reliability, or the same reliability and a latency
  not above that of \<open>b\<close>, where a latency that is unset (or zero) counts as the sentinel
  999999. The sort is stable: the entries that agree on both keys appear in the order
  in which the store enumerates the matching entries.
\<close>

theorem C2_findModels_ranked:
  "sorted_wrt ranked_before (findModels c R) \<and>
   filter (\<lambda>m. m_reliability m = r \<and> latency_or_sentinel (m_latencyMs m) = l)
       (findModels c R)
     = filter (\<lambda>m. m_reliability m = r \<and> latency_or_sentinel (m_latencyMs m) = l)
         (filter (matches_model c) (map snd (models R)))"
proof
  show "sorted_wrt ranked_before (findModels c R)"
    by (simp add: findModels_eq sorted_ranking)
next
  show "filter (\<lambda>m. m_reliability m = r \<and> latency_or_sentinel (m_latencyMs m) = l)
       (findModels c R)
     = filter (\<lambda>m. m_reliability m = r \<and> latency_or_sentinel (m_latencyMs m) = l)
         (filter (matches_model c) (map snd (models R)))"
    unfolding ranking_key_eq findModels_eq by (rule sort_key_stable)
qed

text \<open>Scenario 1 of the specification: \<open>gpt-4\<close> before \<open>llama2\<close>.\<close>

theorem C2_findModels_ranked_witness:
  "findModels (no_criteria\<lparr>c_type := Some ''llm''\<rparr>) two_models = [gpt4_entry, llama2_entry] \<and>
   ranked_before gpt4_entry llama2_entry"
proof -
  have res: "findModels (no_criteria\<lparr>c_type := Some ''llm''\<rparr>) two_models
      = [gpt4_entry, llama2_entry]"
    by (simp add: findModels_eq matches_model_truthy satisfies_truthy_def two_models_models
        no_criteria_def ranking_key_def example_defs)
  from C2_findModels_ranked [of "no_criteria\<lparr>c_type := Some ''llm''\<rparr>" two_models]
  have "sorted_wrt ranked_before (findModels (no_criteria\<lparr>c_type := Some ''llm''\<rparr>) two_models)"
    by blast
  with res show ?thesis by simp
qed

text \<open>
  The claim as worded fails: an entry with unset latency is ranked before an entry of
  equal reliability whose latency is set but above the sentinel.
\<close>

theorem C2_counterexample:
  "findModels no_criteria slow_then_unmeasured = [unmeasured_entry, slow_entry] \<and>
   m_latencyMs unmeasured_entry = Null \<and>
   m_latencyMs slow_entry = Num 2000000 \<and>
   \<not> sorted_wrt spec_ranked_before (findModels no_criteria slow_then_unmeasured)"
proof -
  have res: "findModels no_criteria slow_then_unmeasured = [unmeasured_entry, slow_entry]"
    by (simp add: findModels_no_criteria slow_then_unmeasured_def ranking_key_def example_defs)
  have "\<not> spec_ranked_before unmeasured_entry slow_entry"
    by (simp add: spec_ranked_before_def example_defs)
  with res show ?thesis by (simp add: example_defs)
qed

subsection \<open>Unset latency against a bound\<close>

text \<open>
  C3 (as the code has it). Let the criteria supply a numeric \<^verbatim>\<open>maxLatency\<close> bound
  \<open>b\<close>. An entry whose \<^verbatim>\<open>latencyMs\<close> property is absent passes the \<^verbatim>\<open>maxLatency\<close> test
  for every \<open>b\<close>. An entry whose \<^verbatim>\<open>latencyMs\<close> is \<^verbatim>\<open>null\<close>, which is what
  \<^verbatim>\<open>registerModel\<close> stores for an unset latency, passes exactly when \<open>b\<close> is not
  negative; then, the other criteria being absent, \<^verbatim>\<open>findModels\<close> returns it.
\<close>

theorem C3_unset_latency:
  "c_maxLatency c = Some b \<Longrightarrow>
     (m_latencyMs m = Undefined \<longrightarrow> \<not> fails_maxLatency c m) \<and>
     (m_latencyMs m = Null \<longrightarrow> (\<not> fails_maxLatency c m \<longleftrightarrow> 0 \<le> b)) \<and>
     ((m_latencyMs m = Undefined \<or> m_latencyMs m = Null \<and> 0 \<le> b) \<and> (k, m) \<in> set (models R)
        \<longrightarrow> m \<in> set (findModels (max_latency_only b) R))"
proof -
  assume b: "c_maxLatency c = Some b"
  have 1: "m_latencyMs m = Undefined \<longrightarrow> \<not> fails_maxLatency c m"
    using b by (simp add: fails_maxLatency_def)
  have 2: "m_latencyMs m = Null \<longrightarrow> (\<not> fails_maxLatency c m \<longleftrightarrow> 0 \<le> b)"
    using b by (auto simp: fails_maxLatency_def)
  have 3: "m \<in> set (findModels (max_latency_only b) R)"
    if u: "m_latencyMs m = Undefined \<or> m_latencyMs m = Null \<and> 0 \<le> b"
      and k: "(k, m) \<in> set (models R)"
  proof -
    from u have "satisfies_truthy (max_latency_only b) m"
      by (auto simp: satisfies_truthy_def max_latency_only_def no_criteria_def)
    moreover from k have "m \<in> snd ` set (models R)" by force
    ultimately show ?thesis by (simp add: findModels_eq matches_model_truthy)
  qed
  from 1 2 3 show ?thesis by blast
qed

theorem C3_unset_latency_witness:
  "c_maxLatency (max_latency_only 2000) = Some 2000 \<and>
   m_latencyMs unmeasured_entry = Null \<and>
   \<not> fails_maxLatency (max_latency_only 2000) unmeasured_entry \<and>
   unmeasured_entry \<in> set (findModels (max_latency_only 2000) only_unmeasured)"
proof -
  have b: "c_maxLatency (max_latency_only 2000) = Some 2000"
    by (simp add: max_latency_only_def no_criteria_def)
  have n: "m_latencyMs unmeasured_entry = Null"
    by (simp add: example_defs)
  have k: "(''id-u'', unmeasured_entry) \<in> set (models only_unmeasured)"
    by (simp add: only_unmeasured_def)
  from C3_unset_latency [OF b, of unmeasured_entry "''id-u''" only_unmeasured] b n k
  show ?thesis by simp
qed

text \<open>
  The claim as worded fails for a negative bound: \<^verbatim>\<open>null > -1\<close> is \<^verbatim>\<open>0 > -1\<close>, so
  the entry registered without a latency is filtered out.
\<close>

theorem C3_counterexample:
  "m_latencyMs unmeasured_entry = Null \<and>
   fails_maxLatency (max_latency_only (- 1)) unmeasured_entry \<and>
   findModels (max_latency_only (- 1)) only_unmeasured = []"
  by (simp add: findModels_eq matches_model_iff fails_maxLatency_def only_unmeasured_def
      max_latency_only_def no_criteria_def example_defs)

subsection \<open>The map invariant\<close>

text \<open>
  A \<^verbatim>\<open>Map\<close> holds each key once. The operations keep the association lists that
  stand for the maps free of duplicate keys.
\<close>

lemma registerModel_distinct:
  "distinct (map fst (models R)) \<Longrightarrow>
     distinct (map fst (models (snd (registerModel uuid timestamp modelData R))))"
  by (simp add: registerModel_def Let_def distinct_update)

lemma updateModelStatus_distinct:
  "distinct (map fst (models R)) \<Longrightarrow>
     distinct (map fst (models (updateModelStatus now modelId status R)))"
  by (simp add: updateModelStatus_def distinct_update split: option.splits)

lemma updateModel_distinct:
  "distinct (map fst (models R)) \<Longrightarrow> updateModel now modelId body R = Some (e, R') \<Longrightarrow>
     distinct (map fst (models R'))"
  by (auto simp: updateModel_def Let_def distinct_update split: option.splits)

lemma removeModel_distinct:
  "distinct (map fst (models R)) \<Longrightarrow>
     distinct (map fst (models (snd (removeModel modelId R))))"
  by (simp add: removeModel_def distinct_delete split: option.splits)

lemma two_models_distinct: "distinct (map fst (models two_models))"
  by (simp add: two_models_models)

subsection \<open>Removal\<close>

lemma totalModels_fold:
  "totalModels (fold getStats_step ms st) = totalModels st + length ms"
  by (induction ms arbitrary: st) (simp_all add: getStats_step_def)

lemma totalModels_length: "totalModels (getStats up now R) = length (models R)"
  by (simp add: getStats_def totalModels_fold)

lemma delete_values:
  "distinct (map fst al) \<Longrightarrow> map_of al k = Some v \<Longrightarrow>
     mset (map snd (AList.delete k al)) = mset (map snd al) - {#v#}"
proof (induction al)
  case Nil
  then show ?case by simp
next
  case (Cons p al)
  show ?case
  proof (cases "fst p = k")
    case True
    with Cons.prems have "k \<notin> fst ` set al" and "snd p = v"
      by (auto split: if_splits)
    with True show ?thesis by simp
  next
    case False
    with Cons.prems have d: "distinct (map fst al)" and m: "map_of al k = Some v"
      by (auto split: if_splits)
    from m have "v \<in># mset (map snd al)"
      by (auto dest!: map_of_SomeD intro: rev_image_eqI)
    with False Cons.IH [OF d m] show ?thesis by simp
  qed
qed

lemma delete_length:
  "distinct (map fst al) \<Longrightarrow> map_of al k = Some v \<Longrightarrow>
     Suc (length (AList.delete k al)) = length al"
proof (induction al)
  case Nil
  then show ?case by simp
next
  case (Cons p al)
  show ?case
  proof (cases "fst p = k")
    case True
    with Cons.prems have "k \<notin> fst ` set al"
      by auto
    with True show ?thesis by simp
  next
    case False
    with Cons.prems Cons.IH show ?thesis by (auto split: if_splits)
  qed
qed

text \<open>
  C6. In a registry whose model map holds \<open>modelId\<close>, \<^verbatim>\<open>removeModel(modelId)\<close> returns
  \<^verbatim>\<open>true\<close>; afterwards the lookup of \<open>modelId\<close> finds nothing, \<^verbatim>\<open>findModels({})\<close>
  returns what it returned before less the removed entry, and \<^verbatim>\<open>totalModels\<close> of
  \<^verbatim>\<open>getStats()\<close> is one less. When the map does not hold \<open>modelId\<close> the call returns
  \<^verbatim>\<open>false\<close> and the registry is unchanged.
\<close>

theorem C6_removeModel:
  assumes "distinct (map fst (models R))"
  shows "(getModel modelId R = Some m \<longrightarrow>
            fst (removeModel modelId R) = True \<and>
            getModel modelId (snd (removeModel modelId R)) = None \<and>
            modelId \<notin> fst ` set (models (snd (removeModel modelId R))) \<and>
            mset (findModels no_criteria (snd (removeModel modelId R)))
              = mset (findModels no_criteria R) - {#m#} \<and>
            totalModels (getStats up now (snd (removeModel modelId R))) + 1
              = totalModels (getStats up now R)) \<and>
         (getModel modelId R = None \<longrightarrow> removeModel modelId R = (False, R))"
proof (intro conjI impI)
  assume m: "getModel modelId R = Some m"
  then have lk: "map_of (models R) modelId = Some m"
    by (simp add: getModel_def)
  then have rm: "removeModel modelId R = (True, R\<lparr>models := AList.delete modelId (models R)\<rparr>)"
    by (simp add: removeModel_def)
  show "fst (removeModel modelId R) = True"
    by (simp add: rm)
  show "getModel modelId (snd (removeModel modelId R)) = None"
    by (simp add: rm getModel_def delete_conv)
  show "modelId \<notin> fst ` set (models (snd (removeModel modelId R)))"
    by (simp add: rm delete_notin_dom)
  show "mset (findModels no_criteria (snd (removeModel modelId R)))
          = mset (findModels no_criteria R) - {#m#}"
    using delete_values [OF assms lk] by (simp add: rm findModels_no_criteria)
  show "totalModels (getStats up now (snd (removeModel modelId R))) + 1
          = totalModels (getStats up now R)"
    using delete_length [OF assms lk] by (simp add: rm totalModels_length)
next
  assume "getModel modelId R = None"
  then show "removeModel modelId R = (False, R)"
    by (simp add: removeModel_def getModel_def)
qed

text \<open>Scenario 6 of the specification, and the removal of an unknown id.\<close>

theorem C6_removeModel_witness:
  "distinct (map fst (models two_models)) \<and>
   getModel ''id-1'' two_models = Some gpt4_entry \<and>
   fst (removeModel ''id-1'' two_models) = True \<and>
   getModel ''id-1'' (snd (removeModel ''id-1'' two_models)) = None \<and>
   findModels no_criteria two_models = [gpt4_entry, llama2_entry] \<and>
   mset (findModels no_criteria (snd (removeModel ''id-1'' two_models))) = {#llama2_entry#} \<and>
   totalModels (getStats 0 [] two_models) = 2 \<and>
   totalModels (getStats 0 [] (snd (removeModel ''id-1'' two_models))) = 1 \<and>
   getModel ''id-9'' two_models = None \<and>
   removeModel ''id-9'' two_models = (False, two_models)"
proof -
  have g: "getModel ''id-1'' two_models = Some gpt4_entry"
    by (simp add: getModel_def two_models_models)
  have n: "getModel ''id-9'' two_models = None"
    by (simp add: getModel_def two_models_models)
  have f: "findModels no_criteria two_models = [gpt4_entry, llama2_entry]"
    by (simp add: findModels_no_criteria two_models_models ranking_key_def example_defs)
  have t: "totalModels (getStats 0 [] two_models) = 2"
    by (simp add: totalModels_length two_models_models)
  from C6_removeModel [OF two_models_distinct, of "''id-1''" gpt4_entry 0 "[]"]
    C6_removeModel [OF two_models_distinct, of "''id-9''" gpt4_entry 0 "[]"]
    g n f t two_models_distinct
  show ?thesis by simp
qed

subsection \<open>Registration\<close>

lemma registerModel_stored:
  "map_of (models (snd (registerModel uuid timestamp modelData R)))
       (m_id (fst (registerModel uuid timestamp modelData R)))
     = Some (fst (registerModel uuid timestamp modelData R))"
  by (simp add: registerModel_def Let_def update_conv')

text \<open>
  C9. Whatever the request body holds, the entry \<^verbatim>\<open>registerModel\<close> builds and stores
  has status \<^verbatim>\<open>'active'\<close>; a \<^verbatim>\<open>status\<close> property of the body changes neither the
  entry nor the registry.
\<close>

theorem C9_register_status_active:
  "m_status (fst (registerModel uuid timestamp modelData R)) = ''active'' \<and>
   getModel (m_id (fst (registerModel uuid timestamp modelData R)))
       (snd (registerModel uuid timestamp modelData R))
     = Some (fst (registerModel uuid timestamp modelData R)) \<and>
   registerModel uuid timestamp (modelData\<lparr>d_status := s\<rparr>) R
     = registerModel uuid timestamp modelData R"
proof (intro conjI)
  show "m_status (fst (registerModel uuid timestamp modelData R)) = ''active''"
    by (simp add: registerModel_def Let_def)
  show "getModel (m_id (fst (registerModel uuid timestamp modelData R)))
       (snd (registerModel uuid timestamp modelData R))
     = Some (fst (registerModel uuid timestamp modelData R))"
    unfolding getModel_def by (rule registerModel_stored)
  show "registerModel uuid timestamp (modelData\<lparr>d_status := s\<rparr>) R
     = registerModel uuid timestamp modelData R"
    by (simp add: registerModel_def)
qed

theorem C9_register_status_active_witness:
  "m_status (fst (registerModel ''id-3'' ''2024-01-05T00:00:00.000Z''
       (no_data\<lparr>d_status := Some ''inactive''\<rparr>) two_models)) = ''active'' \<and>
   map_option m_status (getModel ''id-3''
       (snd (registerModel ''id-3'' ''2024-01-05T00:00:00.000Z''
          (no_data\<lparr>d_status := Some ''inactive''\<rparr>) two_models))) = Some ''active''"
proof -
  have i: "m_id (fst (registerModel ''id-3'' ''2024-01-05T00:00:00.000Z''
       (no_data\<lparr>d_status := Some ''inactive''\<rparr>) two_models)) = ''id-3''"
    by (simp add: registerModel_def Let_def no_data_def)
  from C9_register_status_active [of "''id-3''" "''2024-01-05T00:00:00.000Z''"
      "no_data\<lparr>d_status := Some ''inactive''\<rparr>" two_models] i
  show ?thesis by simp
qed

text \<open>
  C10. The stored entry's reliability is the supplied reliability when that is not
  zero, and \<open>1\<close> when the body has no reliability or has reliability \<open>0\<close>.
\<close>

theorem C10_register_reliability:
  "(d_reliability modelData = Some r \<and> r \<noteq> 0 \<longrightarrow>
      m_reliability (fst (registerModel uuid timestamp modelData R)) = r) \<and>
   (d_reliability modelData = None \<longrightarrow>
      m_reliability (fst (registerModel uuid timestamp modelData R)) = 1) \<and>
   (d_reliability modelData = Some 0 \<longrightarrow>
      m_reliability (fst (registerModel uuid timestamp modelData R)) = 1) \<and>
   getModel (m_id (fst (registerModel uuid timestamp modelData R)))
       (snd (registerModel uuid timestamp modelData R))
     = Some (fst (registerModel uuid timestamp modelData R))"
proof (intro conjI impI)
  assume "d_reliability modelData = Some r \<and> r \<noteq> 0"
  then show "m_reliability (fst (registerModel uuid timestamp modelData R)) = r"
    by (simp add: registerModel_def Let_def)
next
  assume "d_reliability modelData = None"
  then show "m_reliability (fst (registerModel uuid timestamp modelData R)) = 1"
    by (simp add: registerModel_def Let_def)
next
  assume "d_reliability modelData = Some 0"
  then show "m_reliability (fst (registerModel uuid timestamp modelData R)) = 1"
    by (simp add: registerModel_def Let_def)
next
  show "getModel (m_id (fst (registerModel uuid timestamp modelData R)))
       (snd (registerModel uuid timestamp modelData R))
     = Some (fst (registerModel uuid timestamp modelData R))"
    unfolding getModel_def by (rule registerModel_stored)
qed

theorem C10_register_reliability_witness:
  "d_reliability gpt4_data = Some (99 / 100) \<and>
   m_reliability (fst (registerModel ''u'' ''t'' gpt4_data new_registry)) = 99 / 100 \<and>
   d_reliability no_data = None \<and>
   m_reliability (fst (registerModel ''u'' ''t'' no_data new_registry)) = 1 \<and>
   d_reliability (no_data\<lparr>d_reliability := Some 0\<rparr>) = Some 0 \<and>
   m_reliability (fst (registerModel ''u'' ''t'' (no_data\<lparr>d_reliability := Some 0\<rparr>)
       new_registry)) = 1"
proof -
  have a: "d_reliability gpt4_data = Some (99 / 100) \<and> (99 / 100 :: rat) \<noteq> 0"
    by (simp add: gpt4_data_def no_data_def)
  have b: "d_reliability no_data = None"
    by (simp add: no_data_def)
  have c: "d_reliability (no_data\<lparr>d_reliability := Some 0\<rparr>) = Some 0"
    by simp
  from a b c
    C10_register_reliability [of gpt4_data "99 / 100" "''u''" "''t''" new_registry]
    C10_register_reliability [of no_data 0 "''u''" "''t''" new_registry]
    C10_register_reliability [of "no_data\<lparr>d_reliability := Some 0\<rparr>" 0 "''u''" "''t''"
      new_registry]
  show ?thesis by blast
qed

subsection \<open>Timestamps\<close>

lemma registerModel_frame:
  "k \<noteq> m_id (fst (registerModel uuid timestamp modelData R)) \<Longrightarrow>
     map_of (models (snd (registerModel uuid timestamp modelData R))) k = map_of (models R) k"
  by (simp add: registerModel_def Let_def update_conv')

text \<open>
  C7 (as the code has it). \<^verbatim>\<open>registerModel\<close> stores the new entry under its id (the
  id of the body, or a fresh one) with \<^verbatim>\<open>lastUpdated\<close> and \<^verbatim>\<open>lastSeen\<close> (and
  \<^verbatim>\<open>registeredAt\<close>) set to the time of the call. The update of a model's fields sets
  \<^verbatim>\<open>lastUpdated\<close> to the time of the call and leaves \<^verbatim>\<open>lastSeen\<close> as it was unless the
  body supplies one. The heartbeat \<^verbatim>\<open>updateModelStatus\<close> sets \<^verbatim>\<open>lastSeen\<close> to the time
  of the call and the status, and leaves every other field, \<^verbatim>\<open>lastUpdated\<close> included,
  as it was. Each of the three calls leaves the entries under other ids, the agents and
  the networks untouched; update and heartbeat of an unknown id change nothing.
\<close>

theorem C7_timestamps:
  "(m_lastUpdated (fst (registerModel uuid now modelData R)) = now \<and>
    m_lastSeen (fst (registerModel uuid now modelData R)) = now \<and>
    m_registeredAt (fst (registerModel uuid now modelData R)) = now \<and>
    m_id (fst (registerModel uuid now modelData R)) = or_str (d_id modelData) uuid \<and>
    getModel (m_id (fst (registerModel uuid now modelData R)))
        (snd (registerModel uuid now modelData R))
      = Some (fst (registerModel uuid now modelData R)) \<and>
    (\<forall>k. k \<noteq> m_id (fst (registerModel uuid now modelData R)) \<longrightarrow>
       getModel k (snd (registerModel uuid now modelData R)) = getModel k R) \<and>
    agents (snd (registerModel uuid now modelData R)) = agents R \<and>
    networks (snd (registerModel uuid now modelData R)) = networks R) \<and>
   (getModel modelId R = Some existing \<longrightarrow>
      (\<exists>e R'. updateModel now modelId body R = Some (e, R') \<and>
         getModel modelId R' = Some e \<and>
         m_lastUpdated e = now \<and>
         m_lastSeen e = spread (m_lastSeen existing) (d_lastSeen body) \<and>
         (\<forall>k. k \<noteq> modelId \<longrightarrow> getModel k R' = getModel k R) \<and>
         agents R' = agents R \<and> networks R' = networks R)) \<and>
   (getModel modelId R = Some existing \<longrightarrow>
      getModel modelId (updateModelStatus now modelId status R)
        = Some (existing\<lparr>m_lastSeen := now,
                         m_status := (case status of None \<Rightarrow> ''active'' | Some s \<Rightarrow> s)\<rparr>) \<and>
      (\<forall>k. k \<noteq> modelId \<longrightarrow>
         getModel k (updateModelStatus now modelId status R) = getModel k R) \<and>
      agents (updateModelStatus now modelId status R) = agents R \<and>
      networks (updateModelStatus now modelId status R) = networks R) \<and>
   (getModel modelId R = None \<longrightarrow>
      updateModel now modelId body R = None \<and> updateModelStatus now modelId status R = R)"
proof (intro conjI impI)
  show "m_lastUpdated (fst (registerModel uuid now modelData R)) = now"
    by (simp add: registerModel_def Let_def)
  show "m_lastSeen (fst (registerModel uuid now modelData R)) = now"
    by (simp add: registerModel_def Let_def)
  show "m_registeredAt (fst (registerModel uuid now modelData R)) = now"
    by (simp add: registerModel_def Let_def)
  show "m_id (fst (registerModel uuid now modelData R)) = or_str (d_id modelData) uuid"
    by (simp add: registerModel_def Let_def)
  show "getModel (m_id (fst (registerModel uuid now modelData R)))
        (snd (registerModel uuid now modelData R))
      = Some (fst (registerModel uuid now modelData R))"
    unfolding getModel_def by (rule registerModel_stored)
  show "\<forall>k. k \<noteq> m_id (fst (registerModel uuid now modelData R)) \<longrightarrow>
       getModel k (snd (registerModel uuid now modelData R)) = getModel k R"
    unfolding getModel_def by (intro allI impI) (rule registerModel_frame)
  show "agents (snd (registerModel uuid now modelData R)) = agents R"
    by (simp add: registerModel_def Let_def)
  show "networks (snd (registerModel uuid now modelData R)) = networks R"
    by (simp add: registerModel_def Let_def)
next
  assume "getModel modelId R = Some existing"
  then have lk: "map_of (models R) modelId = Some existing"
    by (simp add: getModel_def)
  obtain e R' where u: "updateModel now modelId body R = Some (e, R')"
    using lk by (simp add: updateModel_def Let_def)
  from u lk have R': "R' = R\<lparr>models := AList.update modelId e (models R)\<rparr>"
    by (auto simp: updateModel_def Let_def)
  from u lk have "m_lastUpdated e = now"
    by (auto simp: updateModel_def Let_def)
  moreover from u lk have "m_lastSeen e = spread (m_lastSeen existing) (d_lastSeen body)"
    by (auto simp: updateModel_def Let_def)
  moreover have "getModel modelId R' = Some e"
    by (simp add: getModel_def R' update_conv')
  moreover have "\<forall>k. k \<noteq> modelId \<longrightarrow> getModel k R' = getModel k R"
    by (simp add: getModel_def R' update_conv')
  moreover have "agents R' = agents R" and "networks R' = networks R"
    by (simp_all add: R')
  ultimately show "\<exists>e R'. updateModel now modelId body R = Some (e, R') \<and>
         getModel modelId R' = Some e \<and>
         m_lastUpdated e = now \<and>
         m_lastSeen e = spread (m_lastSeen existing) (d_lastSeen body) \<and>
         (\<forall>k. k \<noteq> modelId \<longrightarrow> getModel k R' = getModel k R) \<and>
         agents R' = agents R \<and> networks R' = networks R"
    using u by blast
next
  assume "getModel modelId R = Some existing"
  then have lk: "map_of (models R) modelId = Some existing"
    by (simp add: getModel_def)
  show "getModel modelId (updateModelStatus now modelId status R)
        = Some (existing\<lparr>m_lastSeen := now,
                         m_status := (case status of None \<Rightarrow> ''active'' | Some s \<Rightarrow> s)\<rparr>)"
    using lk by (simp add: getModel_def updateModelStatus_def update_conv')
  show "\<forall>k. k \<noteq> modelId \<longrightarrow>
         getModel k (updateModelStatus now modelId status R) = getModel k R"
    using lk by (simp add: getModel_def updateModelStatus_def update_conv')
  show "agents (updateModelStatus now modelId status R) = agents R"
    using lk by (simp add: updateModelStatus_def)
  show "networks (updateModelStatus now modelId status R) = networks R"
    using lk by (simp add: updateModelStatus_def)
next
  assume "getModel modelId R = None"
  then show "updateModel now modelId body R = None"
    by (simp add: getModel_def updateModel_def)
next
  assume "getModel modelId R = None"
  then show "updateModelStatus now modelId status R = R"
    by (simp add: getModel_def updateModelStatus_def)
qed

theorem C7_timestamps_witness:
  "getModel ''id-1'' two_models = Some gpt4_entry \<and>
   map_option m_lastSeen
       (getModel ''id-3''
          (snd (registerModel ''id-3'' ''2024-02-01T00:00:00.000Z'' no_data two_models)))
     = Some ''2024-02-01T00:00:00.000Z'' \<and>
   map_option m_lastUpdated
       (getModel ''id-3''
          (snd (registerModel ''id-3'' ''2024-02-01T00:00:00.000Z'' no_data two_models)))
     = Some ''2024-02-01T00:00:00.000Z'' \<and>
   getModel ''id-1'' (snd (registerModel ''id-3'' ''2024-02-01T00:00:00.000Z'' no_data two_models))
     = Some gpt4_entry \<and>
   map_option m_lastSeen
       (getModel ''id-1'' (updateModelStatus ''2024-02-01T00:00:00.000Z'' ''id-1'' None two_models))
     = Some ''2024-02-01T00:00:00.000Z'' \<and>
   getModel ''id-2'' (updateModelStatus ''2024-02-01T00:00:00.000Z'' ''id-1'' None two_models)
     = getModel ''id-2'' two_models \<and>
   map_option (m_lastUpdated \<circ> fst)
       (updateModel ''2024-02-01T00:00:00.000Z'' ''id-1'' no_data two_models)
     = Some ''2024-02-01T00:00:00.000Z'' \<and>
   getModel ''id-9'' two_models = None \<and>
   updateModel ''2024-02-01T00:00:00.000Z'' ''id-9'' no_data two_models = None \<and>
   updateModelStatus ''2024-02-01T00:00:00.000Z'' ''id-9'' None two_models = two_models"
proof -
  have g: "getModel ''id-1'' two_models = Some gpt4_entry"
    by (simp add: getModel_def two_models_models)
  have n: "getModel ''id-9'' two_models = None"
    by (simp add: getModel_def two_models_models)
  have ne: "''id-2'' \<noteq> ''id-1''"
    by simp
  note at1 = C7_timestamps [of "''id-3''" "''2024-02-01T00:00:00.000Z''" no_data two_models
      "''id-1''" gpt4_entry no_data None]
  note at9 = C7_timestamps [of "''id-3''" "''2024-02-01T00:00:00.000Z''" no_data two_models
      "''id-9''" gpt4_entry no_data None]
  note reg = at1 [THEN conjunct1]
  have i: "m_id (fst (registerModel ''id-3'' ''2024-02-01T00:00:00.000Z'' no_data two_models))
      = ''id-3''"
    using reg [THEN conjunct2, THEN conjunct2, THEN conjunct2, THEN conjunct1]
    by (simp add: no_data_def)
  note stored = reg [THEN conjunct2, THEN conjunct2, THEN conjunct2, THEN conjunct2,
      THEN conjunct1, unfolded i]
  note frame = reg [THEN conjunct2, THEN conjunct2, THEN conjunct2, THEN conjunct2,
      THEN conjunct2, THEN conjunct1, unfolded i, rule_format]
  have r1: "map_option m_lastSeen
       (getModel ''id-3''
          (snd (registerModel ''id-3'' ''2024-02-01T00:00:00.000Z'' no_data two_models)))
     = Some ''2024-02-01T00:00:00.000Z''"
    using reg [THEN conjunct2, THEN conjunct1] by (simp add: stored)
  have r2: "map_option m_lastUpdated
       (getModel ''id-3''
          (snd (registerModel ''id-3'' ''2024-02-01T00:00:00.000Z'' no_data two_models)))
     = Some ''2024-02-01T00:00:00.000Z''"
    using reg [THEN conjunct1] by (simp add: stored)
  have "''id-1'' \<noteq> ''id-3''"
    by simp
  from frame [OF this] g
  have r3: "getModel ''id-1''
      (snd (registerModel ''id-3'' ''2024-02-01T00:00:00.000Z'' no_data two_models))
     = Some gpt4_entry"
    by simp
  from at1 [THEN conjunct2, THEN conjunct1, rule_format, OF g]
  obtain e R' where "updateModel ''2024-02-01T00:00:00.000Z'' ''id-1'' no_data two_models
      = Some (e, R')" and "m_lastUpdated e = ''2024-02-01T00:00:00.000Z''"
    by blast
  then have 3: "map_option (m_lastUpdated \<circ> fst)
       (updateModel ''2024-02-01T00:00:00.000Z'' ''id-1'' no_data two_models)
     = Some ''2024-02-01T00:00:00.000Z''"
    by simp
  note hb = at1 [THEN conjunct2, THEN conjunct2, THEN conjunct1, rule_format, OF g]
  from hb [THEN conjunct1]
  have 1: "map_option m_lastSeen
       (getModel ''id-1'' (updateModelStatus ''2024-02-01T00:00:00.000Z'' ''id-1'' None two_models))
     = Some ''2024-02-01T00:00:00.000Z''"
    by simp
  from hb [THEN conjunct2, THEN conjunct1, rule_format, OF ne]
  have 2: "getModel ''id-2'' (updateModelStatus ''2024-02-01T00:00:00.000Z'' ''id-1'' None two_models)
       = getModel ''id-2'' two_models" .
  note absent = at9 [THEN conjunct2, THEN conjunct2, THEN conjunct2, rule_format, OF n]
  show ?thesis
    by (intro conjI)
      (rule g r1 r2 r3 1 2 3 n absent [THEN conjunct1] absent [THEN conjunct2])+
qed

text \<open>
  The claim as worded fails. A heartbeat at a later time leaves \<^verbatim>\<open>lastUpdated\<close> at the
  registration time, and an update at a later time leaves \<^verbatim>\<open>lastSeen\<close> there.
\<close>

theorem C7_counterexample:
  "m_lastUpdated gpt4_entry = ''2024-01-01T00:00:00.000Z'' \<and>
   m_lastSeen gpt4_entry = ''2024-01-01T00:00:00.000Z'' \<and>
   getModel ''id-1'' two_models = Some gpt4_entry \<and>
   map_option m_lastUpdated
       (getModel ''id-1'' (updateModelStatus ''2024-02-01T00:00:00.000Z'' ''id-1'' None two_models))
     = Some ''2024-01-01T00:00:00.000Z'' \<and>
   map_option (m_lastSeen \<circ> fst)
       (updateModel ''2024-02-01T00:00:00.000Z'' ''id-1''
          (no_data\<lparr>d_description := Some ''updated''\<rparr>) two_models)
     = Some ''2024-01-01T00:00:00.000Z''"
proof -
  have g: "getModel ''id-1'' two_models = Some gpt4_entry"
    by (simp add: getModel_def two_models_models)
  then have lk: "map_of (models two_models) ''id-1'' = Some gpt4_entry"
    by (simp add: getModel_def)
  have a: "m_lastUpdated gpt4_entry = ''2024-01-01T00:00:00.000Z''"
    by (simp add: example_defs)
  have b: "m_lastSeen gpt4_entry = ''2024-01-01T00:00:00.000Z''"
    by (simp add: example_defs)
  have c: "map_option m_lastUpdated
       (getModel ''id-1'' (updateModelStatus ''2024-02-01T00:00:00.000Z'' ''id-1'' None two_models))
     = Some ''2024-01-01T00:00:00.000Z''"
    using lk a by (simp add: getModel_def updateModelStatus_def update_conv')
  have d: "map_option (m_lastSeen \<circ> fst)
       (updateModel ''2024-02-01T00:00:00.000Z'' ''id-1''
          (no_data\<lparr>d_description := Some ''updated''\<rparr>) two_models)
     = Some ''2024-01-01T00:00:00.000Z''"
    using lk b by (simp add: updateModel_def Let_def no_data_def)
  from a b g c d show ?thesis by blast
qed

subsection \<open>The communication descriptor\<close>

lemma descriptor_apiKey_irrelevant:
  "str_truthy k = str_truthy (m_apiKey model) \<Longrightarrow>
     getModelCommunication now_ms now modelId
         (R\<lparr>models := AList.update modelId (model\<lparr>m_apiKey := k\<rparr>) (models R)\<rparr>)
       = getModelCommunication now_ms now modelId
         (R\<lparr>models := AList.update modelId model (models R)\<rparr>)"
  by (simp add: getModelCommunication_def update_conv' generateExampleRequest_def
      generateExampleResponse_def request_examples_def response_examples_def)

text \<open>
  C4 (as the code has it). For a model id present in the store,
  \<^verbatim>\<open>getModelCommunication\<close> returns an object with the nine properties \<^verbatim>\<open>id\<close>,
  \<^verbatim>\<open>name\<close>, \<^verbatim>\<open>endpoint\<close>, \<^verbatim>\<open>protocol\<close>, \<^verbatim>\<open>communicationSchema\<close>, \<^verbatim>\<open>authMethod\<close>,
  \<^verbatim>\<open>apiKey\<close>, \<^verbatim>\<open>exampleRequest\<close>, \<^verbatim>\<open>exampleResponse\<close>. There is no \<^verbatim>\<open>apiKeyPresent\<close>
  property: the property \<^verbatim>\<open>apiKey\<close> holds the fixed string \<^verbatim>\<open>'***hidden***'\<close> when the
  record's key is non-empty and \<^verbatim>\<open>null\<close> otherwise. The record's key enters the
  descriptor through that test alone: replacing the key by any other key that is
  non-empty exactly when the first is leaves the whole descriptor unchanged. For an
  unknown id the result is \<^verbatim>\<open>null\<close>.
\<close>

theorem C4_descriptor:
  "(getModel modelId R = Some model \<longrightarrow>
      (\<exists>d. getModelCommunication now_ms now modelId R = Some d \<and>
           own_keys d = [''id'', ''name'', ''endpoint'', ''protocol'', ''communicationSchema'',
                         ''authMethod'', ''apiKey'', ''exampleRequest'', ''exampleResponse''] \<and>
           property d ''apiKeyPresent'' = None \<and>
           property d ''apiKey''
             = Some (if str_truthy (m_apiKey model) then JStr ''***hidden***'' else JNull) \<and>
           (str_truthy k = str_truthy (m_apiKey model) \<longrightarrow>
              getModelCommunication now_ms now modelId
                  (R\<lparr>models := AList.update modelId (model\<lparr>m_apiKey := k\<rparr>) (models R)\<rparr>)
                = Some d))) \<and>
   (getModel modelId R = None \<longrightarrow> getModelCommunication now_ms now modelId R = None)"
proof (intro conjI impI)
  assume "getModel modelId R = Some model"
  then have lk: "map_of (models R) modelId = Some model"
    by (simp add: getModel_def)
  then obtain d where d: "getModelCommunication now_ms now modelId R = Some d"
    by (simp add: getModelCommunication_def)
  from lk d have keys: "own_keys d = [''id'', ''name'', ''endpoint'', ''protocol'',
      ''communicationSchema'', ''authMethod'', ''apiKey'', ''exampleRequest'', ''exampleResponse'']"
    by (auto simp: getModelCommunication_def)
  from lk d have absent: "property d ''apiKeyPresent'' = None"
    by (auto simp: getModelCommunication_def)
  from lk d have masked: "property d ''apiKey''
      = Some (if str_truthy (m_apiKey model) then JStr ''***hidden***'' else JNull)"
    by (auto simp: getModelCommunication_def)
  have same: "getModelCommunication now_ms now modelId
        (R\<lparr>models := AList.update modelId (model\<lparr>m_apiKey := k\<rparr>) (models R)\<rparr>) = Some d"
    if t: "str_truthy k = str_truthy (m_apiKey model)"
  proof -
    from lk have "AList.update modelId model (models R) = models R"
      by (rule update_triv)
    then have "R\<lparr>models := AList.update modelId model (models R)\<rparr> = R"
      by simp
    with descriptor_apiKey_irrelevant [OF t, of now_ms now modelId R] d show ?thesis
      by simp
  qed
  from d keys absent masked same
  show "\<exists>d. getModelCommunication now_ms now modelId R = Some d \<and>
           own_keys d = [''id'', ''name'', ''endpoint'', ''protocol'', ''communicationSchema'',
                         ''authMethod'', ''apiKey'', ''exampleRequest'', ''exampleResponse''] \<and>
           property d ''apiKeyPresent'' = None \<and>
           property d ''apiKey''
             = Some (if str_truthy (m_apiKey model) then JStr ''***hidden***'' else JNull) \<and>
           (str_truthy k = str_truthy (m_apiKey model) \<longrightarrow>
              getModelCommunication now_ms now modelId
                  (R\<lparr>models := AList.update modelId (model\<lparr>m_apiKey := k\<rparr>) (models R)\<rparr>)
                = Some d)"
    by blast
next
  assume "getModel modelId R = None"
  then show "getModelCommunication now_ms now modelId R = None"
    by (simp add: getModel_def getModelCommunication_def)
qed

lemma secret_registry_models: "models secret_registry = [(''m1'', secret_entry)]"
  by (simp add: secret_registry_def secret_entry_def secret_data_def example_defs)

theorem C4_descriptor_witness:
  "getModel ''m1'' secret_registry = Some secret_entry \<and>
   m_apiKey secret_entry = Some ''secret'' \<and>
   getModelCommunication 1704067200000 ''2024-01-01T00:00:00.000Z'' ''m1'' secret_registry
     = Some secret_descriptor \<and>
   property secret_descriptor ''apiKey'' = Some (JStr ''***hidden***'') \<and>
   getModelCommunication 1704067200000 ''2024-01-01T00:00:00.000Z'' ''m1''
       (secret_registry\<lparr>models :=
          AList.update ''m1'' (secret_entry\<lparr>m_apiKey := Some ''another-key''\<rparr>)
            (models secret_registry)\<rparr>)
     = Some secret_descriptor \<and>
   getModel ''zz'' secret_registry = None \<and>
   getModelCommunication 1704067200000 ''2024-01-01T00:00:00.000Z'' ''zz'' secret_registry = None"
proof -
  have g: "getModel ''m1'' secret_registry = Some secret_entry"
    by (simp add: getModel_def secret_registry_models)
  have n: "getModel ''zz'' secret_registry = None"
    by (simp add: getModel_def secret_registry_models)
  have key: "m_apiKey secret_entry = Some ''secret''"
    by (simp add: secret_entry_def secret_data_def example_defs)
  then have t: "str_truthy (Some ''another-key'') = str_truthy (m_apiKey secret_entry)"
    by simp
  note at1 = C4_descriptor [of "''m1''" secret_registry secret_entry 1704067200000
      "''2024-01-01T00:00:00.000Z''" "Some ''another-key''"]
  note at2 = C4_descriptor [of "''zz''" secret_registry secret_entry 1704067200000
      "''2024-01-01T00:00:00.000Z''" "Some ''another-key''"]
  from at1 [THEN conjunct1, rule_format, OF g]
  obtain d where d: "getModelCommunication 1704067200000 ''2024-01-01T00:00:00.000Z'' ''m1''
        secret_registry = Some d"
    and m: "property d ''apiKey''
        = Some (if str_truthy (m_apiKey secret_entry) then JStr ''***hidden***'' else JNull)"
    and s: "str_truthy (Some ''another-key'') = str_truthy (m_apiKey secret_entry) \<longrightarrow>
       getModelCommunication 1704067200000 ''2024-01-01T00:00:00.000Z'' ''m1''
         (secret_registry\<lparr>models :=
            AList.update ''m1'' (secret_entry\<lparr>m_apiKey := Some ''another-key''\<rparr>)
              (models secret_registry)\<rparr>) = Some d"
    by blast
  from d have sd: "secret_descriptor = d"
    by (simp add: secret_descriptor_def)
  from m key have m': "property secret_descriptor ''apiKey'' = Some (JStr ''***hidden***'')"
    by (simp add: sd)
  from s t have s': "getModelCommunication 1704067200000 ''2024-01-01T00:00:00.000Z'' ''m1''
         (secret_registry\<lparr>models :=
            AList.update ''m1'' (secret_entry\<lparr>m_apiKey := Some ''another-key''\<rparr>)
              (models secret_registry)\<rparr>) = Some secret_descriptor"
    by (simp only: sd)
  from d have d': "getModelCommunication 1704067200000 ''2024-01-01T00:00:00.000Z'' ''m1''
        secret_registry = Some secret_descriptor"
    by (simp only: sd)
  note none = at2 [THEN conjunct2, rule_format, OF n]
  show ?thesis
    by (intro conjI) (rule g key d' m' s' n none)+
qed

text \<open>
  The claim as worded fails. The descriptor of a model registered with the key
  \<^verbatim>\<open>"secret"\<close> has no \<^verbatim>\<open>apiKeyPresent\<close> property, its \<^verbatim>\<open>apiKey\<close> property is a string,
  not a boolean, and since the model's name is the same word as its key, the raw key
  is in the payload as the \<^verbatim>\<open>name\<close>.
\<close>

theorem C4_counterexample:
  "getModel ''m1'' secret_registry = Some secret_entry \<and>
   m_apiKey secret_entry = Some ''secret'' \<and>
   getModelCommunication 1704067200000 ''2024-01-01T00:00:00.000Z'' ''m1'' secret_registry
     = Some secret_descriptor \<and>
   property secret_descriptor ''apiKeyPresent'' = None \<and>
   property secret_descriptor ''apiKey'' = Some (JStr ''***hidden***'') \<and>
   property secret_descriptor ''name'' = Some (JStr ''secret'')"
proof -
  have g: "getModel ''m1'' secret_registry = Some secret_entry"
    by (simp add: getModel_def secret_registry_models)
  have key: "m_apiKey secret_entry = Some ''secret''"
    by (simp add: secret_entry_def secret_data_def example_defs)
  have name: "m_name secret_entry = Some ''secret''"
    by (simp add: secret_entry_def secret_data_def example_defs)
  have d: "getModelCommunication 1704067200000 ''2024-01-01T00:00:00.000Z'' ''m1'' secret_registry
     = Some secret_descriptor"
    by (simp add: secret_descriptor_def getModelCommunication_def secret_registry_models)
  have sd: "secret_descriptor = JObj
            [(''id'', JStr (m_id secret_entry)),
             (''name'', js_str (m_name secret_entry)),
             (''endpoint'', js_str (m_endpoint secret_entry)),
             (''protocol'', JStr (m_protocol secret_entry)),
             (''communicationSchema'', schema_obj (m_communicationSchema secret_entry)),
             (''authMethod'', js_str (s_authMethod (m_communicationSchema secret_entry))),
             (''apiKey'', if str_truthy (m_apiKey secret_entry) then JStr ''***hidden***'' else JNull),
             (''exampleRequest'', generateExampleRequest secret_entry),
             (''exampleResponse'',
                generateExampleResponse 1704067200000 ''2024-01-01T00:00:00.000Z'' secret_entry)]"
    by (simp add: secret_descriptor_def getModelCommunication_def secret_registry_models)
  have 1: "property secret_descriptor ''apiKeyPresent'' = None"
    by (simp add: sd)
  have 2: "property secret_descriptor ''apiKey'' = Some (JStr ''***hidden***'')"
    by (simp add: sd key)
  have 3: "property secret_descriptor ''name'' = Some (JStr ''secret'')"
    by (simp add: sd name)
  show ?thesis
    by (intro conjI) (rule g key d 1 2 3)+
qed

subsection \<open>Reading back what was written\<close>

lemma json_value_undefined: "json_value v = JUndefined \<longleftrightarrow> v = JUndefined"
  by (cases v) simp_all

lemma map_of_defined:
  "distinct (map fst kvs) \<Longrightarrow>
     map_of (filter (\<lambda>(k, v). v \<noteq> JUndefined) kvs) k
       = (case map_of kvs k of
            None \<Rightarrow> None
          | Some v \<Rightarrow> if v = JUndefined then None else Some v)"
proof (induction kvs)
  case Nil
  then show ?case by simp
next
  case (Cons p kvs)
  obtain k' v' where p: "p = (k', v')" by (cases p)
  from Cons.prems p have notin: "k' \<notin> fst ` set kvs" and d: "distinct (map fst kvs)"
    by auto
  from notin have none: "map_of kvs k' = None"
    by (simp add: map_of_eq_None_iff)
  show ?case
  proof (cases "k = k'")
    case True
    with p none Cons.IH [OF d] show ?thesis by simp
  next
    case False
    with p Cons.IH [OF d] show ?thesis by simp
  qed
qed
















subsection \<open>Maps and objects\<close>

lemma update_new_key: "k \<notin> fst ` set al \<Longrightarrow> AList.update k v al = al @ [(k, v)]"
  by (induction al) auto

lemma fold_update_distinct:
  "distinct (map fst (acc @ es)) \<Longrightarrow>
     fold (\<lambda>(k, v) m. AList.update k v m) es acc = acc @ es"
proof (induction es arbitrary: acc)
  case Nil
  then show ?case by simp
next
  case (Cons e es)
  obtain k v where e: "e = (k, v)" by (cases e)
  from Cons.prems e have "k \<notin> fst ` set acc"
    by auto
  then have u: "AList.update k v acc = acc @ [(k, v)]"
    by (rule update_new_key)
  from Cons.prems e have "distinct (map fst ((acc @ [(k, v)]) @ es))"
    by simp
  from Cons.IH [OF this] u e show ?case by simp
qed

lemma Map_of_entries_distinct: "distinct (map fst es) \<Longrightarrow> Map_of_entries es = es"
  using fold_update_distinct [of "[]" es] by (simp add: Map_of_entries_def)

lemma insort_key_map:
  "insort_key f (h x) (map h xs) = map h (insort_key (\<lambda>y. f (h y)) x xs)"
  by (induction xs) simp_all

lemma sort_key_map: "sort_key f (map h xs) = map h (sort_key (\<lambda>y. f (h y)) xs)"
  by (induction xs) (simp_all add: insort_key_map)

lemma own_property_order_values:
  "own_property_order (map (\<lambda>(k, v). (k, f v)) kvs)
     = map (\<lambda>(k, v). (k, f v)) (own_property_order kvs)"
proof -
  have 1: "(\<lambda>y. (case (case y of (k, v) \<Rightarrow> (k, f v)) of (k, v) \<Rightarrow> index_value k))
      = (\<lambda>(k, v). index_value k)"
    by (auto simp: fun_eq_iff)
  have 2: "((\<lambda>(k, v). is_array_index k) \<circ> (\<lambda>(k, v). (k, f v))) = (\<lambda>(k, v). is_array_index k)"
    by (auto simp: fun_eq_iff)
  have 3: "((\<lambda>(k, v). \<not> is_array_index k) \<circ> (\<lambda>(k, v). (k, f v)))
      = (\<lambda>(k, v). \<not> is_array_index k)"
    by (auto simp: fun_eq_iff)
  show ?thesis
    unfolding own_property_order_def by (simp add: filter_map sort_key_map 1 2 3)
qed

lemma own_property_order_mset: "mset (own_property_order kvs) = mset kvs"
proof -
  have "filter_mset (\<lambda>(k, v). is_array_index k) (mset kvs)
        + filter_mset (\<lambda>(k, v). \<not> is_array_index k) (mset kvs) = mset kvs"
    using multiset_partition [of "mset kvs" "\<lambda>(k, v). is_array_index k"]
    by (simp add: case_prod_unfold)
  then show ?thesis by (simp add: own_property_order_def)
qed

lemma own_property_order_keys:
  "mset (map fst (own_property_order kvs)) = mset (map fst kvs)"
  using own_property_order_mset [of kvs] by (metis mset_map)

lemma own_property_order_distinct:
  "distinct (map fst kvs) \<Longrightarrow> distinct (map fst (own_property_order kvs))"
  using own_property_order_keys [of kvs] by (metis mset_eq_imp_distinct_iff)

lemma own_property_order_map_of:
  assumes "distinct (map fst kvs)"
  shows "map_of (own_property_order kvs) = map_of kvs"
proof -
  have "set (own_property_order kvs) = set kvs"
    using own_property_order_mset [of kvs] by (metis set_mset_mset)
  with assms own_property_order_distinct [OF assms] show ?thesis
    by (simp add: map_of_inject_set)
qed

text \<open>Keys that are array indices move to the front, in numeric order.\<close>

lemma array_index_examples:
  "is_array_index ''10''" "is_array_index ''2''"
  "\<not> is_array_index ''007''" "\<not> is_array_index ''b''"
  by (simp_all add: is_array_index_def is_digit_def index_value_def)

lemma index_value_examples: "index_value ''10'' = 10" "index_value ''2'' = 2"
  by (simp_all add: index_value_def)

lemma own_property_order_example:
  "own_property_order [(''b'', 1::nat), (''10'', 2), (''2'', 3), (''007'', 4)]
     = [(''2'', 3), (''10'', 2), (''b'', 1), (''007'', 4)]"
  by (simp add: own_property_order_def array_index_examples index_value_examples)



subsection \<open>The snapshot\<close>

lemma Object_fromEntries_defined: "json_value (Object_fromEntries es) \<noteq> JUndefined"
  by (simp only: json_value_undefined) (simp add: Object_fromEntries_def)

lemma model_obj_defined: "json_value (model_obj m) \<noteq> JUndefined"
  by (simp only: json_value_undefined) (simp add: model_obj_def)

lemma agent_obj_defined: "json_value (agent_obj a) \<noteq> JUndefined"
  by (simp only: json_value_undefined) (simp add: agent_obj_def)

lemma map_values_keys: "map fst (map (\<lambda>(k, x). (k, f x)) xs) = map fst xs"
  by (induction xs) auto

lemma json_value_fromEntries:
  assumes "distinct (map fst xs)" and "\<And>x. json_value (f x) \<noteq> JUndefined"
  shows "json_value (Object_fromEntries (map (\<lambda>(k, x). (k, f x)) xs))
           = JObj (map (\<lambda>(k, x). (k, json_value (f x))) (own_property_order xs))"
proof -
  from assms(1) have "distinct (map fst (map (\<lambda>(k, x). (k, f x)) xs))"
    by (simp only: map_values_keys)
  then have "Map_of_entries (map (\<lambda>(k, x). (k, f x)) xs) = map (\<lambda>(k, x). (k, f x)) xs"
    by (rule Map_of_entries_distinct)
  then have o: "Object_fromEntries (map (\<lambda>(k, x). (k, f x)) xs)
      = JObj (map (\<lambda>(k, x). (k, f x)) (own_property_order xs))"
    by (simp add: Object_fromEntries_def own_property_order_values)
  have m: "map (map_prod id json_value) (map (\<lambda>(k, x). (k, f x)) ys)
      = map (\<lambda>(k, x). (k, json_value (f x))) ys" for ys
    by (induction ys) auto
  have fl: "filter (\<lambda>(k, v). v \<noteq> JUndefined) (map (\<lambda>(k, x). (k, json_value (f x))) ys)
      = map (\<lambda>(k, x). (k, json_value (f x))) ys" for ys
    by (induction ys) (auto simp: assms(2))
  have "json_value (Object_fromEntries (map (\<lambda>(k, x). (k, f x)) xs))
      = json_value (JObj (map (\<lambda>(k, x). (k, f x)) (own_property_order xs)))"
    by (simp only: o)
  also have "\<dots> = JObj (filter (\<lambda>(k, v). v \<noteq> JUndefined)
      (map (map_prod id json_value) (map (\<lambda>(k, x). (k, f x)) (own_property_order xs))))"
    by (simp only: json_value.simps)
  also have "\<dots> = JObj (map (\<lambda>(k, x). (k, json_value (f x))) (own_property_order xs))"
    by (simp only: m fl)
  finally show ?thesis .
qed

lemma saved_document:
  assumes "distinct (map fst (models R))" and "distinct (map fst (agents R))"
  shows "saveData True now R file =
     Some (JObj
       [(''models'',
           JObj (map (\<lambda>(k, m). (k, json_value (model_obj m))) (own_property_order (models R)))),
        (''agents'',
           JObj (map (\<lambda>(k, a). (k, json_value (agent_obj a))) (own_property_order (agents R)))),
        (''networks'', json_value (Object_fromEntries (networks R))),
        (''lastUpdated'', JStr now)])"
  by (simp add: saveData_def snapshot_def Object_fromEntries_defined
      json_value_fromEntries [OF assms(1), of model_obj, OF model_obj_defined]
      json_value_fromEntries [OF assms(2), of agent_obj, OF agent_obj_defined])






lemma models_and_agent_maps:
  "models models_and_agent = [(''id-1'', gpt4_entry), (''id-2'', llama2_entry)]"
  "agents models_and_agent = [(''agent-1'', worker_entry)]"
  by (simp_all add: models_and_agent_def worker_entry_def worker_data_def registerAgent_def
      Let_def two_models_models) (simp add: two_models_def example_defs)




lemma saved_entries:
  "json_value (Object_fromEntries es) =
     JObj (filter (\<lambda>(k, v). v \<noteq> JUndefined)
             (map (map_prod id json_value) (own_property_order (Map_of_entries es))))"
  by (simp add: Object_fromEntries_def)

lemma saved_entries_map_of:
  assumes "distinct (map fst es)"
  shows "map_of (filter (\<lambda>(k, v). v \<noteq> JUndefined)
             (map (map_prod id json_value) (own_property_order (Map_of_entries es)))) k
         = (case map_of es k of
              None \<Rightarrow> None
            | Some v \<Rightarrow> if v = JUndefined then None else Some (json_value v))"
proof -
  let ?xs = "own_property_order es"
  have e: "Map_of_entries es = es"
    using assms by (rule Map_of_entries_distinct)
  have d: "distinct (map fst ?xs)"
    using assms by (rule own_property_order_distinct)
  have m: "map_of (map (map_prod id json_value) ?xs) k = map_option json_value (map_of es k)"
  proof -
    have "map_of (map (map_prod id json_value) ys) k = map_option json_value (map_of ys k)" for ys
      by (induction ys) auto
    then show ?thesis by (simp only: own_property_order_map_of [OF assms])
  qed
  from d have "distinct (map fst (map (map_prod id json_value) ?xs))"
    by (simp add: comp_def)
  from map_of_defined [OF this, of k] m show ?thesis
    by (cases "map_of es k") (auto simp: e json_value_undefined)
qed

text \<open>
  C8 (as the code has it). The snapshot \<^verbatim>\<open>saveData()\<close> writes is one JSON object with
  the four top-level keys \<^verbatim>\<open>models\<close>, \<^verbatim>\<open>agents\<close>, \<^verbatim>\<open>networks\<close>, \<^verbatim>\<open>lastUpdated\<close>, in this
  order: \<^verbatim>\<open>models\<close> maps each model id to the JSON of its entry, \<^verbatim>\<open>agents\<close> each agent
  id to the JSON of its entry, \<^verbatim>\<open>networks\<close> each network id to the JSON of its value
  (an id whose value is \<^verbatim>\<open>undefined\<close> is left out), and \<^verbatim>\<open>lastUpdated\<close> is the time of
  the call. When the write fails the file stays as it was.
\<close>

theorem C8_snapshot_layout:
  assumes "distinct (map fst (models R))" and "distinct (map fst (agents R))"
  shows "(\<exists>ms as ns.
            saveData True now R file =
              Some (JObj [(''models'', JObj ms), (''agents'', JObj as),
                          (''networks'', JObj ns), (''lastUpdated'', JStr now)]) \<and>
            (\<forall>k. map_of ms k = map_option (\<lambda>m. json_value (model_obj m)) (map_of (models R) k)) \<and>
            (\<forall>k. map_of as k = map_option (\<lambda>a. json_value (agent_obj a)) (map_of (agents R) k)) \<and>
            (distinct (map fst (networks R)) \<longrightarrow>
               (\<forall>k. map_of ns k =
                  (case map_of (networks R) k of
                     None \<Rightarrow> None
                   | Some v \<Rightarrow> if v = JUndefined then None else Some (json_value v))))) \<and>
         saveData False now R file = file"
proof
  let ?ms = "map (\<lambda>(k, m). (k, json_value (model_obj m))) (own_property_order (models R))"
  let ?as = "map (\<lambda>(k, a). (k, json_value (agent_obj a))) (own_property_order (agents R))"
  let ?ns = "filter (\<lambda>(k, v). v \<noteq> JUndefined)
      (map (map_prod id json_value) (own_property_order (Map_of_entries (networks R))))"
  have s: "saveData True now R file =
      Some (JObj [(''models'', JObj ?ms), (''agents'', JObj ?as),
                  (''networks'', JObj ?ns), (''lastUpdated'', JStr now)])"
    by (simp only: saved_document [OF assms] saved_entries)
  have m: "map_of ?ms k = map_option (\<lambda>m. json_value (model_obj m)) (map_of (models R) k)" for k
    by (simp add: map_of_map own_property_order_map_of [OF assms(1)])
  have a: "map_of ?as k = map_option (\<lambda>a. json_value (agent_obj a)) (map_of (agents R) k)" for k
    by (simp add: map_of_map own_property_order_map_of [OF assms(2)])
  have n: "distinct (map fst (networks R)) \<longrightarrow>
      (\<forall>k. map_of ?ns k =
         (case map_of (networks R) k of
            None \<Rightarrow> None
          | Some v \<Rightarrow> if v = JUndefined then None else Some (json_value v)))"
    by (intro impI allI) (rule saved_entries_map_of)
  from s m a n
  show "\<exists>ms as ns.
            saveData True now R file =
              Some (JObj [(''models'', JObj ms), (''agents'', JObj as),
                          (''networks'', JObj ns), (''lastUpdated'', JStr now)]) \<and>
            (\<forall>k. map_of ms k = map_option (\<lambda>m. json_value (model_obj m)) (map_of (models R) k)) \<and>
            (\<forall>k. map_of as k = map_option (\<lambda>a. json_value (agent_obj a)) (map_of (agents R) k)) \<and>
            (distinct (map fst (networks R)) \<longrightarrow>
               (\<forall>k. map_of ns k =
                  (case map_of (networks R) k of
                     None \<Rightarrow> None
                   | Some v \<Rightarrow> if v = JUndefined then None else Some (json_value v))))"
    by blast
next
  show "saveData False now R file = file"
    by (simp add: saveData_def)
qed

theorem C8_snapshot_layout_witness:
  "distinct (map fst (models with_network)) \<and>
   distinct (map fst (agents with_network)) \<and>
   distinct (map fst (networks with_network)) \<and>
   map_option own_keys (saveData True ''2024-03-01T00:00:00.000Z'' with_network None)
     = Some [''models'', ''agents'', ''networks'', ''lastUpdated''] \<and>
   Option.bind (saveData True ''2024-03-01T00:00:00.000Z'' with_network None)
       (\<lambda>d. Option.bind (property d ''networks'') (\<lambda>n. property n ''net-1''))
     = Some (JObj [(''name'', JStr ''main'')]) \<and>
   saveData False ''2024-03-01T00:00:00.000Z'' with_network None = None"
proof -
  have dm: "distinct (map fst (models with_network))"
    by (simp add: with_network_def models_and_agent_maps)
  have da: "distinct (map fst (agents with_network))"
    by (simp add: with_network_def models_and_agent_maps)
  have nw: "networks with_network = [(''net-1'', JObj [(''name'', JStr ''main'')])]"
    by (simp add: with_network_def)
  have dn: "distinct (map fst (networks with_network))"
    by (simp add: nw)
  note at = C8_snapshot_layout [OF dm da, of "''2024-03-01T00:00:00.000Z''" None]
  from at [THEN conjunct1] obtain ms as ns where
    s: "saveData True ''2024-03-01T00:00:00.000Z'' with_network None =
       Some (JObj [(''models'', JObj ms), (''agents'', JObj as),
                   (''networks'', JObj ns), (''lastUpdated'', JStr ''2024-03-01T00:00:00.000Z'')])"
    and n: "distinct (map fst (networks with_network)) \<longrightarrow>
       (\<forall>k. map_of ns k =
          (case map_of (networks with_network) k of
             None \<Rightarrow> None
           | Some v \<Rightarrow> if v = JUndefined then None else Some (json_value v)))"
    by blast
  from s have k: "map_option own_keys
      (saveData True ''2024-03-01T00:00:00.000Z'' with_network None)
     = Some [''models'', ''agents'', ''networks'', ''lastUpdated'']"
    by simp
  from n dn have "map_of ns ''net-1'' =
      (case map_of (networks with_network) ''net-1'' of
         None \<Rightarrow> None
       | Some v \<Rightarrow> if v = JUndefined then None else Some (json_value v))"
    by blast
  then have "map_of ns ''net-1'' = Some (JObj [(''name'', JStr ''main'')])"
    by (simp add: nw)
  with s have p: "Option.bind (saveData True ''2024-03-01T00:00:00.000Z'' with_network None)
       (\<lambda>d. Option.bind (property d ''networks'') (\<lambda>n. property n ''net-1''))
     = Some (JObj [(''name'', JStr ''main'')])"
    by simp
  show ?thesis
    by (intro conjI) (rule dm da dn k p at [THEN conjunct2])+
qed

text \<open>
  The claim as worded fails: the snapshot of the empty registry already has a fourth
  top-level key, \<^verbatim>\<open>networks\<close>.
\<close>

theorem C8_counterexample:
  "saveData True ''2024-03-01T00:00:00.000Z'' new_registry None =
     Some (JObj [(''models'', JObj []), (''agents'', JObj []), (''networks'', JObj []),
                 (''lastUpdated'', JStr ''2024-03-01T00:00:00.000Z'')]) \<and>
   map_option own_keys (saveData True ''2024-03-01T00:00:00.000Z'' new_registry None)
     \<noteq> Some [''models'', ''agents'', ''lastUpdated'']"
proof -
  have "saveData True ''2024-03-01T00:00:00.000Z'' new_registry None =
     Some (JObj [(''models'', JObj []), (''agents'', JObj []), (''networks'', JObj []),
                 (''lastUpdated'', JStr ''2024-03-01T00:00:00.000Z'')])"
    by (simp add: saveData_def snapshot_def Object_fromEntries_def Map_of_entries_def
        own_property_order_def new_registry_def)
  then show ?thesis by simp
qed


end
